theory Spec2Isabelle
  imports Main "HOL-Library.Sublist" "HOL-Library.Multiset"
begin

section \<open>JavaScript strings\<close>

text \<open>
  Strings are lists of characters. A \<^typ>\<open>char\<close> stands for a UTF-16 code unit below
  \<open>0x100\<close>; code units above that range are outside this model.
\<close>

definition isWhiteSpace :: "char \<Rightarrow> bool" where
  \<comment> \<open>WhiteSpace and LineTerminator of ECMAScript, as far as they lie below \<open>0x100\<close>.\<close>
  "isWhiteSpace c = (of_char c \<in> {9, 10, 11, 12, 13, 32, 160 :: nat})"

definition trim :: "string \<Rightarrow> string" where
  \<comment> \<open>\<open>String.prototype.trim\<close>\<close>
  "trim s = rev (dropWhile isWhiteSpace (rev (dropWhile isWhiteSpace s)))"

definition lowerChar :: "char \<Rightarrow> char" where
  "lowerChar c =
     (let n = (of_char c :: nat)
      in if (65 \<le> n \<and> n \<le> 90) \<or> (192 \<le> n \<and> n \<le> 222 \<and> n \<noteq> 215)
         then char_of (n + 32) else c)"

definition toLowerCase :: "string \<Rightarrow> string" where
  \<comment> \<open>\<open>String.prototype.toLowerCase\<close>\<close>
  "toLowerCase s = map lowerChar s"

definition includes_str :: "string \<Rightarrow> string \<Rightarrow> bool" where
  \<comment> \<open>\<open>s.includes(t)\<close>: \<open>t\<close> occurs in \<open>s\<close> as a contiguous substring.\<close>
  "includes_str s t = sublist t s"

fun split_str :: "char \<Rightarrow> string \<Rightarrow> string list" where
  \<comment> \<open>\<open>s.split(sep)\<close> for a separator of one character; the result is never empty.\<close>
  "split_str sep [] = [[]]"
| "split_str sep (c # cs) =
     (if c = sep then [] # split_str sep cs
      else (case split_str sep cs of
              [] \<Rightarrow> [[c]]
            | x # xs \<Rightarrow> (c # x) # xs))"

fun join_str :: "string \<Rightarrow> string list \<Rightarrow> string" where
  \<comment> \<open>\<open>xs.join(sep)\<close>\<close>
  "join_str sep [] = []"
| "join_str sep [x] = x"
| "join_str sep (x # y # ys) = x @ sep @ join_str sep (y # ys)"

definition isSlash :: "char \<Rightarrow> bool" where
  "isSlash c = (c = CHR ''/'')"

text \<open>
  \<^verbatim>\<open>s.replace(/([^:]\/)\/+/g, "$1")\<close>: the scan goes from left to right. A match at
  a position needs a character other than \<open>:\<close>, then \<open>/\<close>, then at least one more
  \<open>/\<close>; it takes all the slashes that follow, and is replaced by its first two
  characters. The scan goes on behind the match. Where there is no match, the character
  is kept and the scan moves one position on.
\<close>

function replaceDupSlashes :: "string \<Rightarrow> string" where
  "replaceDupSlashes (c # d # e # rest) =
     (if c \<noteq> CHR '':'' \<and> d = CHR ''/'' \<and> e = CHR ''/''
      then c # d # replaceDupSlashes (dropWhile isSlash rest)
      else c # replaceDupSlashes (d # e # rest))"
| "replaceDupSlashes [c, d] = [c, d]"
| "replaceDupSlashes [c] = [c]"
| "replaceDupSlashes [] = []"
  by pat_completeness auto
termination
  by (relation "measure length") (auto simp: length_dropWhile_le less_Suc_eq_le le_SucI)

text \<open>
  The URL construction in the words of the specification: every maximal run of \<open>/\<close> is
  replaced by a single \<open>/\<close>, except for a run right behind a \<open>:\<close>, where the two
  slashes of the scheme separator \<open>://\<close> stay (and no more than these two). The
  first argument is the character before the rest of the string, if there is one.
\<close>

function collapseRuns :: "char option \<Rightarrow> string \<Rightarrow> string" where
  "collapseRuns prev [] = []"
| "collapseRuns prev (c # cs) =
     (if isSlash c
      then (if prev = Some CHR '':''
            then replicate (min (length (takeWhile isSlash (c # cs))) 2) CHR ''/''
            else ''/'')
           @ collapseRuns (Some CHR ''/'') (dropWhile isSlash cs)
      else c # collapseRuns (Some c) cs)"
  by pat_completeness auto
termination
  by (relation "measure (\<lambda>(p, s). length s)") (auto simp: length_dropWhile_le less_Suc_eq_le)


section \<open>JavaScript objects used as dictionaries\<close>

text \<open>
  Both \<open>endpoints\<close> and \<open>elementsBySection\<close> are plain objects. Such an object is an
  association list in insertion order, with distinct keys. Two features of plain objects
  are visible in the program: a property read falls back to \<open>Object.prototype\<close>, and
  \<open>Object.keys\<close>/\<open>Object.entries\<close> list the keys that are array indices first, in
  numeric order, and the other keys in insertion order behind them.
\<close>

definition objectPrototypeKeys :: "string list" where
  "objectPrototypeKeys =
     [''constructor'', ''__defineGetter__'', ''__defineSetter__'', ''hasOwnProperty'',
      ''__lookupGetter__'', ''__lookupSetter__'', ''isPrototypeOf'',
      ''propertyIsEnumerable'', ''toString'', ''valueOf'', ''__proto__'',
      ''toLocaleString'']"

definition protoToString :: "string \<Rightarrow> string" where
  \<comment> \<open>What a template literal makes of an inherited member of \<open>Object.prototype\<close>.\<close>
  "protoToString k =
     (if k = ''__proto__'' then ''[object Object]''
      else if k = ''constructor'' then ''function Object() { [native code] }''
      else ''function '' @ k @ ''() { [native code] }'')"

datatype 'v property = Undefined | Own 'v | Inherited

definition getProperty :: "(string \<times> 'v) list \<Rightarrow> string \<Rightarrow> 'v property" where
  \<comment> \<open>\<open>obj[k]\<close>\<close>
  "getProperty obj k =
     (case map_of obj k of
        Some v \<Rightarrow> Own v
      | None \<Rightarrow> if k \<in> set objectPrototypeKeys then Inherited else Undefined)"

definition setProperty :: "(string \<times> 'v) list \<Rightarrow> string \<Rightarrow> 'v \<Rightarrow> (string \<times> 'v) list" where
  \<comment> \<open>\<open>obj[k] = v\<close>, for a key that is not \<open>__proto__\<close>\<close>
  "setProperty obj k v =
     (if map_of obj k = None then obj @ [(k, v)]
      else map (\<lambda>(k', v'). if k' = k then (k', v) else (k', v')) obj)"

fun truthy :: "string property \<Rightarrow> bool" where
  \<comment> \<open>\<open>undefined\<close> and the empty string are falsy; functions and objects are truthy\<close>
  "truthy Undefined = False"
| "truthy (Own v) = (v \<noteq> [])"
| "truthy Inherited = True"

fun toString :: "string \<Rightarrow> string property \<Rightarrow> string" where
  \<comment> \<open>\<open>`${obj[k]}`\<close>\<close>
  "toString k Undefined = ''undefined''"
| "toString k (Own v) = v"
| "toString k Inherited = protoToString k"

definition isDigit :: "char \<Rightarrow> bool" where
  "isDigit c = (48 \<le> (of_char c :: nat) \<and> (of_char c :: nat) \<le> 57)"

definition digitsValue :: "string \<Rightarrow> int" where
  "digitsValue s = foldl (\<lambda>n c. 10 * n + (of_char c - 48)) 0 s"

definition isArrayIndex :: "string \<Rightarrow> bool" where
  \<comment> \<open>the canonical decimal numeral of an integer below \<open>2^32 - 1\<close>\<close>
  "isArrayIndex k =
     (k \<noteq> [] \<and> list_all isDigit k \<and> (k = ''0'' \<or> hd k \<noteq> CHR ''0'')
      \<and> digitsValue k < 4294967295)"

definition entries :: "(string \<times> 'v) list \<Rightarrow> (string \<times> 'v) list" where
  \<comment> \<open>\<open>Object.entries\<close>\<close>
  "entries obj =
     sort_key (\<lambda>(k, v). digitsValue k) (filter (\<lambda>(k, v). isArrayIndex k) obj)
     @ filter (\<lambda>(k, v). \<not> isArrayIndex k) obj"

definition keys :: "(string \<times> 'v) list \<Rightarrow> string list" where
  \<comment> \<open>\<open>Object.keys\<close>\<close>
  "keys obj = map fst (entries obj)"


section \<open>Errors\<close>

datatype ErrorCode = InvalidParams | MethodNotFound | InternalError

datatype error =
    McpError ErrorCode string
  | TypeError string
  | AxiosError
  | CheerioError


section \<open>The document tree and cheerio selections\<close>

text \<open>
  The values that \<open>response.data\<close> can hold. By default axios hands over the body
  as a string, unless the body is JSON text: then it hands over the value that
  \<open>JSON.parse\<close> makes of it. A finite number is \<open>m * 2^e\<close>, given by \<open>m\<close> and
  \<open>e\<close>; a numeral that is too large is parsed to an infinity, given by its sign.
\<close>

datatype jsvalue =
    JsString string
  | JsNull
  | JsBoolean bool
  | JsNumber int int
  | JsInfinity bool
  | JsArray "jsvalue list"
  | JsObject "(string \<times> jsvalue) list"

fun truthyValue :: "jsvalue \<Rightarrow> bool" where
  \<comment> \<open>falsy are the empty string, \<open>null\<close>, \<open>false\<close> and zero\<close>
  "truthyValue (JsString s) = (s \<noteq> [])"
| "truthyValue JsNull = False"
| "truthyValue (JsBoolean b) = b"
| "truthyValue (JsNumber m e) = (m \<noteq> 0)"
| "truthyValue (JsInfinity negative) = True"
| "truthyValue (JsArray vs) = True"
| "truthyValue (JsObject kvs) = True"

text \<open>
  The HTML parser and the serialiser of the cheerio library are parameters of the model;
  \<open>loadValue\<close> is what \<open>cheerio.load\<close> makes of a value that is not a string:
  a tree, or \<open>None\<close> where it throws. What the program does with the parsed tree
  (selecting by class and tag, reading text) is modelled on the tree. A node is
  identified by its path from the root, so that a selection holds each node once, in
  document order. The text of an element is the text of all the text nodes below it,
  comments left out.
\<close>

datatype node =
    Element string "(string \<times> string) list" "node list"
  | Text string
  | Comment string

type_synonym path = "nat list"
type_synonym selection = "(path \<times> node) list"

record cheerio =
  load :: "string \<Rightarrow> node list"
  loadValue :: "jsvalue \<Rightarrow> node list option"
  html :: "node list \<Rightarrow> string"

fun walk :: "path \<Rightarrow> node \<Rightarrow> selection"
  and walks :: "path \<Rightarrow> nat \<Rightarrow> node list \<Rightarrow> selection" where
  "walk p (Element t as cs) = (p, Element t as cs) # walks p 0 cs"
| "walk p (Text s) = [(p, Text s)]"
| "walk p (Comment s) = [(p, Comment s)]"
| "walks p i [] = []"
| "walks p i (n # ns) = walk (p @ [i]) n @ walks p (Suc i) ns"

definition allNodes :: "node list \<Rightarrow> selection" where
  "allNodes doc = walks [] 0 doc"

definition isAncestor :: "path \<Rightarrow> path \<Rightarrow> bool" where
  "isAncestor p q = (length p < length q \<and> take (length p) q = p)"

fun tokensAcc :: "string \<Rightarrow> string \<Rightarrow> string list" where
  "tokensAcc acc [] = (if acc = [] then [] else [rev acc])"
| "tokensAcc acc (c # cs) =
     (if isWhiteSpace c
      then (if acc = [] then tokensAcc [] cs else rev acc # tokensAcc [] cs)
      else tokensAcc (c # acc) cs)"

fun isTag :: "string \<Rightarrow> node \<Rightarrow> bool" where
  \<comment> \<open>the type selector \<open>t\<close>\<close>
  "isTag t (Element t' as cs) = (t' = t)"
| "isTag t n = False"

fun hasClass :: "string \<Rightarrow> node \<Rightarrow> bool" where
  \<comment> \<open>the class selector \<open>.c\<close>\<close>
  "hasClass c (Element t as cs) =
     (case map_of as ''class'' of
        None \<Rightarrow> False
      | Some v \<Rightarrow> c \<in> set (tokensAcc [] v))"
| "hasClass c n = False"

definition select :: "node list \<Rightarrow> (node \<Rightarrow> bool) \<Rightarrow> selection" where
  \<comment> \<open>\<open>$(sel)\<close> for a simple selector\<close>
  "select doc P = filter (\<lambda>(q, n). P n) (allNodes doc)"

definition find_sel :: "node list \<Rightarrow> selection \<Rightarrow> (node \<Rightarrow> bool) \<Rightarrow> selection" where
  \<comment> \<open>\<open>ctx.find(sel)\<close> for a simple selector: the matching descendants of the context\<close>
  "find_sel doc ctx P =
     filter (\<lambda>(q, n). P n \<and> list_ex (\<lambda>(p, m). isAncestor p q) ctx) (allNodes doc)"

definition findDescendant ::
  "node list \<Rightarrow> selection \<Rightarrow> (node \<Rightarrow> bool) \<Rightarrow> (node \<Rightarrow> bool) \<Rightarrow> selection" where
  \<comment> \<open>\<open>ctx.find('a b')\<close>: a \<open>b\<close> below an \<open>a\<close> that is an element of the context or
      lies below one\<close>
  "findDescendant doc ctx P Q =
     filter
       (\<lambda>(q, n). Q n
          \<and> list_ex
                (\<lambda>(p, m). P m \<and> isAncestor p q
                   \<and> list_ex (\<lambda>(c, k). c = p \<or> isAncestor c p) ctx)
                (allNodes doc))
       (allNodes doc)"

definition first_sel :: "selection \<Rightarrow> selection" where
  "first_sel sel = take 1 sel"

definition eq_sel :: "selection \<Rightarrow> nat \<Rightarrow> selection" where
  \<comment> \<open>\<open>sel.eq(i)\<close> is the empty selection when \<open>i\<close> is out of range\<close>
  "eq_sel sel i = (if i < length sel then [sel ! i] else [])"

fun textContent :: "node \<Rightarrow> string" where
  "textContent (Element t as cs) = concat (map textContent cs)"
| "textContent (Text s) = s"
| "textContent (Comment s) = []"

definition text_of :: "selection \<Rightarrow> string" where
  \<comment> \<open>\<open>sel.text()\<close>\<close>
  "text_of sel = concat (map (\<lambda>(q, n). textContent n) sel)"

definition innerHtml :: "cheerio \<Rightarrow> selection \<Rightarrow> string" where
  \<comment> \<open>\<open>sel.html() || ''\<close>\<close>
  "innerHtml ch sel =
     (case sel of
        [] \<Rightarrow> []
      | (q, Element t as cs) # _ \<Rightarrow> html ch cs
      | _ \<Rightarrow> [])"


section \<open>The data model\<close>

record Parameter =
  name :: string
  description :: string
  required :: bool

record ApiDoc =
  title :: string
  description :: string
  parameters :: "Parameter list"
  examples :: "string list"

text \<open>
  The fields of the class \<open>MarimoDocs\<close>: the base URL and the endpoint table are
  constants, taken as a configuration; \<open>cache\<close> and \<open>lastFetch\<close> are the mutable fields.
  The world also keeps the list of the GET requests issued so far, each with its URL and
  its headers. What the program writes to \<open>console.error\<close> is not modelled.
\<close>

record config =
  baseUrl :: string
  endpoints :: "(string \<times> string) list"

type_synonym httpGet = "string \<times> (string \<times> string) list"

record world =
  cache :: "string \<rightharpoonup> ApiDoc"
  lastFetch :: "nat option"
  requests :: "httpGet list"

definition cacheDuration :: nat where
  "cacheDuration = 1000 * 60 * 60"

definition initialWorld :: world where
  "initialWorld = \<lparr>cache = Map.empty, lastFetch = None, requests = []\<rparr>"

text \<open>
  The network answers a GET request, given the requests made before: \<open>axios.get\<close>
  either rejects (no answer, or a status that is not a success) or resolves to a
  response, of which the program reads \<open>data\<close>. For a page of HTML, and for an empty
  body, \<open>data\<close> is the text of the body.
\<close>

datatype response = Failed | Response jsvalue

type_synonym network = "httpGet list \<Rightarrow> httpGet \<Rightarrow> response"

definition marimoEndpoints :: "(string \<times> string) list" where
  "marimoEndpoints =
     [(''array'', ''/inputs/array/''), (''anywidget'', ''/inputs/anywidget/''),
      (''batch'', ''/inputs/batch/''), (''button'', ''/inputs/button/''),
      (''chat'', ''/inputs/chat/''), (''checkbox'', ''/inputs/checkbox/''),
      (''code_editor'', ''/inputs/code_editor/''),
      (''data_explorer'', ''/inputs/data_explorer/''),
      (''dataframe'', ''/inputs/dataframe/''), (''dates'', ''/inputs/dates/''),
      (''dictionary'', ''/inputs/dictionary/''), (''dropdown'', ''/inputs/dropdown/''),
      (''file'', ''/inputs/file/''), (''file_browser'', ''/inputs/file_browser/''),
      (''form'', ''/inputs/form/''), (''microphone'', ''/inputs/microphone/''),
      (''multiselect'', ''/inputs/multiselect/''), (''nav_menu'', ''/inputs/nav_menu/''),
      (''number'', ''/inputs/number/''), (''radio'', ''/inputs/radio/''),
      (''range_slider'', ''/inputs/range_slider/''), (''refresh'', ''/inputs/refresh/''),
      (''run_button'', ''/inputs/run_button/''), (''slider'', ''/inputs/slider/''),
      (''switch'', ''/inputs/switch/''), (''table'', ''/inputs/table/''),
      (''tabs'', ''/inputs/tabs/''), (''text'', ''/inputs/text/''),
      (''text_area'', ''/inputs/text_area/''), (''accordion'', ''/layouts/accordion/''),
      (''callout'', ''/layouts/callout/''), (''carousel'', ''/layouts/carousel/''),
      (''justify'', ''/layouts/justify/''), (''lazy'', ''/layouts/lazy/''),
      (''plain'', ''/layouts/plain/''), (''routes'', ''/layouts/routes/''),
      (''sidebar'', ''/layouts/sidebar/''), (''stacks'', ''/layouts/stacks/''),
      (''tree'', ''/layouts/tree/''), (''audio'', ''/media/audio/''),
      (''download'', ''/media/download/''), (''image'', ''/media/image/''),
      (''pdf'', ''/media/pdf/''), (''plain_text'', ''/media/plain_text/''),
      (''video'', ''/media/video/''), (''markdown'', ''/markdown/''),
      (''control_flow'', ''/control_flow/''), (''plotting'', ''/plotting/''),
      (''status'', ''/status/''), (''outputs'', ''/outputs/''),
      (''diagrams'', ''/diagrams/''), (''html'', ''/html/''),
      (''query_params'', ''/query_params/''), (''cli_args'', ''/cli_args/''),
      (''caching'', ''/caching/''), (''state'', ''/state/''), (''app'', ''/app/''),
      (''cell'', ''/cell/''), (''miscellaneous'', ''/miscellaneous/'')]"

definition marimoDocs :: config where
  "marimoDocs = \<lparr>baseUrl = ''https://docs.marimo.io/api'', endpoints = marimoEndpoints\<rparr>"

text \<open>The constants of the second copy of the program, \<open>src/index.ts\<close>.\<close>

definition indexEndpoints :: "(string \<times> string) list" where
  "indexEndpoints =
     [(''slider'', ''/range_slider/''), (''button'', ''/button/''),
      (''checkbox'', ''/checkbox/''), (''dropdown'', ''/dropdown/''),
      (''text'', ''/text/''), (''number'', ''/number/''), (''array'', ''/array/''),
      (''multiselect'', ''/multiselect/''), (''radio'', ''/radio/''),
      (''switch'', ''/switch/''), (''date'', ''/date/''), (''time'', ''/time/''),
      (''file'', ''/file/'')]"

definition indexDocs :: config where
  "indexDocs =
     \<lparr>baseUrl = ''https://docs.marimo.io/api/inputs'', endpoints = indexEndpoints\<rparr>"

definition requestHeaders :: "(string \<times> string) list" where
  "requestHeaders =
     [(''Accept'',
       ''text/html,application/xhtml+xml,application/xml;q=0.9,image/webp,*/*;q=0.8''),
      (''User-Agent'',
       ''Mozilla/5.0 (Macintosh; Intel Mac OS X 10_15_7) AppleWebKit/537.36''),
      (''Accept-Language'', ''en-US,en;q=0.5'')]"


section \<open>JSON.stringify\<close>

datatype json =
    JString string
  | JBool bool
  | JArray "json list"
  | JObject "(string \<times> json) list"

definition hexDigit :: "nat \<Rightarrow> char" where
  "hexDigit n = (if n < 10 then char_of (48 + n) else char_of (87 + n))"

definition escapeChar :: "char \<Rightarrow> string" where
  "escapeChar c =
     (let n = (of_char c :: nat)
      in if n = 34 then [CHR 0x5C, CHR 0x22]
         else if n = 92 then [CHR 0x5C, CHR 0x5C]
         else if n = 8 then [CHR 0x5C, CHR ''b'']
         else if n = 9 then [CHR 0x5C, CHR ''t'']
         else if n = 10 then [CHR 0x5C, CHR ''n'']
         else if n = 12 then [CHR 0x5C, CHR ''f'']
         else if n = 13 then [CHR 0x5C, CHR ''r'']
         else if n < 32 then [CHR 0x5C, CHR ''u'', CHR ''0'', CHR ''0'',
                              hexDigit (n div 16), hexDigit (n mod 16)]
         else [c])"

definition quote :: "string \<Rightarrow> string" where
  "quote s = [CHR 0x22] @ concat (map escapeChar s) @ [CHR 0x22]"

fun stringify :: "json \<Rightarrow> string" where
  \<comment> \<open>\<open>JSON.stringify(v)\<close>\<close>
  "stringify (JString s) = quote s"
| "stringify (JBool b) = (if b then ''true'' else ''false'')"
| "stringify (JArray xs) = ''['' @ join_str '','' (map stringify xs) @ '']''"
| "stringify (JObject kvs) =
     ''{'' @ join_str '','' (map (\<lambda>(k, v). quote k @ '':'' @ stringify v) kvs) @ ''}''"

fun stringifyIndent :: "string \<Rightarrow> json \<Rightarrow> string" where
  \<comment> \<open>\<open>JSON.stringify(v, null, 2)\<close>, at the current indentation\<close>
  "stringifyIndent ind (JString s) = quote s"
| "stringifyIndent ind (JBool b) = (if b then ''true'' else ''false'')"
| "stringifyIndent ind (JArray xs) =
     (if xs = [] then ''[]''
      else ''['' @ [CHR 0x0A] @ ind @ ''  ''
           @ join_str ('','' @ [CHR 0x0A] @ ind @ ''  '')
               (map (stringifyIndent (ind @ ''  '')) xs)
           @ [CHR 0x0A] @ ind @ '']'')"
| "stringifyIndent ind (JObject kvs) =
     (if kvs = [] then ''{}''
      else ''{'' @ [CHR 0x0A] @ ind @ ''  ''
           @ join_str ('','' @ [CHR 0x0A] @ ind @ ''  '')
               (map (\<lambda>(k, v). quote k @ '': '' @ stringifyIndent (ind @ ''  '') v) kvs)
           @ [CHR 0x0A] @ ind @ ''}'')"

definition parameterJson :: "Parameter \<Rightarrow> json" where
  "parameterJson p =
     JObject [(''name'', JString (name p)),
              (''description'', JString (Parameter.description p)),
              (''required'', JBool (required p))]"

definition docJson :: "ApiDoc \<Rightarrow> json" where
  "docJson doc =
     JObject [(''title'', JString (title doc)),
              (''description'', JString (ApiDoc.description doc)),
              (''parameters'', JArray (map parameterJson (parameters doc))),
              (''examples'', JArray (map JString (examples doc)))]"


section \<open>The document extractor\<close>

definition parseRow :: "node list \<Rightarrow> path \<times> node \<Rightarrow> Parameter option" where
  \<comment> \<open>the body of the callback of \<open>$('tr').each\<close>: \<open>None\<close> where nothing is pushed\<close>
  "parseRow doc row =
     (let cells = find_sel doc [row] (isTag ''td'')
      in if length cells \<ge> 2
         then Some \<lparr>name = trim (text_of (eq_sel cells 0)),
                    Parameter.description = trim (text_of (eq_sel cells 1)),
                    required = includes_str (text_of (eq_sel cells 2)) ''required''\<rparr>
         else None)"

definition parseParameters :: "cheerio \<Rightarrow> selection \<Rightarrow> Parameter list" where
  "parseParameters ch section =
     (let doc = load ch (innerHtml ch section)
      in List.map_filter (parseRow doc) (select doc (isTag ''tr'')))"

definition extractTree :: "cheerio \<Rightarrow> node list \<Rightarrow> ApiDoc" where
  \<comment> \<open>lines 239 to 266 of \<open>fetchDoc\<close>, on the tree that \<open>cheerio.load\<close> has built\<close>
  "extractTree ch doc =
     (let content = select doc (hasClass ''md-content'');
          title = trim (text_of (first_sel (find_sel doc content (isTag ''h1''))));
          descriptions =
            filter (\<lambda>t. length t > 0)
              (map (\<lambda>el. trim (text_of [el])) (find_sel doc content (isTag ''p'')));
          description = join_str [CHR 0x0A, CHR 0x0A] descriptions;
          docSection = first_sel (find_sel doc content (hasClass ''doc-children''));
          parameters = (if length docSection \<noteq> 0 then parseParameters ch docSection else []);
          exampleElements = findDescendant doc content (isTag ''pre'') (isTag ''code'');
          examples =
            filter (\<lambda>t. length t > 0) (map (\<lambda>el. trim (text_of [el])) exampleElements)
      in \<lparr>title = title, description = description,
          parameters = parameters, examples = examples\<rparr>)"

definition extractDoc :: "cheerio \<Rightarrow> string \<Rightarrow> ApiDoc" where
  \<comment> \<open>lines 238 to 266 of \<open>fetchDoc\<close>, for a response whose data is a string\<close>
  "extractDoc ch data = extractTree ch (load ch data)"

definition extractResponse :: "cheerio \<Rightarrow> jsvalue \<Rightarrow> error + ApiDoc" where
  \<comment> \<open>lines 231 to 266 of \<open>fetchDoc\<close>: the test of \<open>response.data\<close> and the extraction\<close>
  "extractResponse ch data =
     (if \<not> truthyValue data
      then Inl (McpError InternalError ''Empty response from Marimo docs'')
      else (case data of
              JsString body \<Rightarrow> Inr (extractDoc ch body)
            | _ \<Rightarrow> (case loadValue ch data of
                      None \<Rightarrow> Inl CheerioError
                    | Some doc \<Rightarrow> Inr (extractTree ch doc))))"


section \<open>Fetching a document\<close>

definition sectionOf :: "string \<Rightarrow> string" where
  \<comment> \<open>\<open>path.split('/')[1] || 'other'\<close>\<close>
  "sectionOf path =
     (case split_str CHR ''/'' path of
        a # b # rest \<Rightarrow> if b = [] then ''other'' else b
      | _ \<Rightarrow> ''other'')"

fun groupBySection ::
  "(string \<times> string) list \<Rightarrow> (string \<times> string list) list
     \<Rightarrow> error + (string \<times> string list) list" where
  \<comment> \<open>the \<open>forEach\<close> that fills \<open>elementsBySection\<close>\<close>
  "groupBySection [] elementsBySection = Inr elementsBySection"
| "groupBySection ((element, path) # rest) elementsBySection =
     (let section = sectionOf path;
          obj = (if getProperty elementsBySection section = Undefined
                 then setProperty elementsBySection section []
                 else elementsBySection)
      in case getProperty obj section of
           Own elements \<Rightarrow> groupBySection rest (setProperty obj section (elements @ [element]))
         | _ \<Rightarrow> Inl (TypeError ''elementsBySection[section].push is not a function''))"

definition unknownElementMessage :: "string \<Rightarrow> (string \<times> string list) list \<Rightarrow> string" where
  "unknownElementMessage element elementsBySection =
     (let availableElements =
            join_str [CHR 0x0A]
              (map (\<lambda>(section, elements). section @ '': '' @ join_str '', '' elements)
                 (entries elementsBySection))
      in ''Unknown element: '' @ element @ [CHR 0x0A, CHR 0x0A]
         @ ''Available elements by section:'' @ [CHR 0x0A] @ availableElements)"

definition tryFetch ::
  "cheerio \<Rightarrow> network \<Rightarrow> world \<Rightarrow> string \<Rightarrow> world \<times> (error + ApiDoc)" where
  \<comment> \<open>the \<open>try\<close> block behind the construction of the URL: the GET request, and
      what \<open>extractResponse\<close> makes of the response\<close>
  "tryFetch ch net w url =
     (let get = (url, requestHeaders);
          w' = w\<lparr>requests := requests w @ [get]\<rparr>
      in case net (requests w) get of
           Failed \<Rightarrow> (w', Inl AxiosError)
         | Response data \<Rightarrow> (w', extractResponse ch data))"

definition fetchDoc ::
  "config \<Rightarrow> cheerio \<Rightarrow> network \<Rightarrow> world \<Rightarrow> string \<Rightarrow> world \<times> (error + ApiDoc)" where
  "fetchDoc cfg ch net w element =
     (let endpoint = getProperty (endpoints cfg) element
      in if \<not> truthy endpoint
         then (case groupBySection (entries (endpoints cfg)) [] of
                 Inl e \<Rightarrow> (w, Inl e)
               | Inr elementsBySection \<Rightarrow>
                   (w, Inl (McpError InvalidParams
                              (unknownElementMessage element elementsBySection))))
         else (let url = replaceDupSlashes (baseUrl cfg @ toString element endpoint)
               in case tryFetch ch net w url of
                    (w', Inl error) \<Rightarrow>
                      (w', Inl (McpError InternalError
                                  (''Failed to fetch documentation for '' @ element)))
                  | (w', Inr doc) \<Rightarrow> (w', Inr doc)))"

text \<open>\<open>fetchDoc\<close> of \<open>src/index.ts\<close>: a flat list of names, and the URL as it is.\<close>

definition fetchDoc_index ::
  "config \<Rightarrow> cheerio \<Rightarrow> network \<Rightarrow> world \<Rightarrow> string \<Rightarrow> world \<times> (error + ApiDoc)" where
  "fetchDoc_index cfg ch net w element =
     (let endpoint = getProperty (endpoints cfg) element
      in if \<not> truthy endpoint
         then (w, Inl (McpError InvalidParams
                         (''Unknown element: '' @ element @ ''. Available elements: ''
                          @ join_str '', '' (keys (endpoints cfg)))))
         else (case tryFetch ch net w (baseUrl cfg @ toString element endpoint) of
                 (w', Inl error) \<Rightarrow>
                   (w', Inl (McpError InternalError
                               (''Failed to fetch documentation for '' @ element)))
               | (w', Inr doc) \<Rightarrow> (w', Inr doc)))"


section \<open>Searching\<close>

definition matches :: "string \<Rightarrow> ApiDoc \<Rightarrow> bool" where
  \<comment> \<open>\<open>JSON.stringify(doc).toLowerCase().includes(query.toLowerCase())\<close>\<close>
  "matches query doc =
     includes_str (toLowerCase (stringify (docJson doc))) (toLowerCase query)"

fun searchLoop ::
  "config \<Rightarrow> cheerio \<Rightarrow> network \<Rightarrow> string \<Rightarrow> string list \<Rightarrow> world \<Rightarrow> ApiDoc list
     \<Rightarrow> world \<times> ApiDoc list" where
  \<comment> \<open>the \<open>for\<close> loop of \<open>searchDocs\<close> over the names still to visit\<close>
  "searchLoop cfg ch net query [] w results = (w, results)"
| "searchLoop cfg ch net query (element # rest) w results =
     (case fetchDoc cfg ch net w element of
        (w', Inr doc) \<Rightarrow>
          if matches query doc
          then searchLoop cfg ch net query rest w' (results @ [doc])
          else searchLoop cfg ch net query rest w' results
      | (w', Inl error) \<Rightarrow> searchLoop cfg ch net query rest w' results)"

definition searchDocs ::
  "config \<Rightarrow> cheerio \<Rightarrow> network \<Rightarrow> world \<Rightarrow> string \<Rightarrow> world \<times> ApiDoc list" where
  "searchDocs cfg ch net w query =
     searchLoop cfg ch net query (keys (endpoints cfg)) w []"


section \<open>The dispatcher\<close>

text \<open>
  A tool call carries the name of the tool and, optionally, an arguments object. The
  fields of the arguments object are taken at their declared type, \<open>string\<close>. The result
  of a call is its list of content items, each a type and a text.
\<close>

record request =
  req_name :: string
  req_arguments :: "(string \<rightharpoonup> string) option"

type_synonym result = "(string \<times> string) list"

definition handler ::
  "config \<Rightarrow> cheerio \<Rightarrow> network \<Rightarrow> world \<Rightarrow> request \<Rightarrow> world \<times> (error + result)" where
  \<comment> \<open>the handler of \<open>CallToolRequestSchema\<close>\<close>
  "handler cfg ch net w request =
     (case req_arguments request of
        None \<Rightarrow> (w, Inl (McpError InvalidParams ''Missing arguments''))
      | Some args \<Rightarrow>
          if req_name request = ''get_element_api''
          then (case args ''element'' of
                  None \<Rightarrow> (w, Inl (McpError InvalidParams ''Missing element parameter''))
                | Some element \<Rightarrow>
                    if element = []
                    then (w, Inl (McpError InvalidParams ''Missing element parameter''))
                    else (case fetchDoc cfg ch net w element of
                            (w', Inl e) \<Rightarrow> (w', Inl e)
                          | (w', Inr doc) \<Rightarrow>
                              (w', Inr [(''text'', stringifyIndent [] (docJson doc))])))
          else if req_name request = ''search_api''
          then (case args ''query'' of
                  None \<Rightarrow> (w, Inl (McpError InvalidParams ''Missing query parameter''))
                | Some query \<Rightarrow>
                    if query = []
                    then (w, Inl (McpError InvalidParams ''Missing query parameter''))
                    else (case searchDocs cfg ch net w query of
                            (w', results) \<Rightarrow>
                              (w', Inr [(''text'',
                                         stringifyIndent [] (JArray (map docJson results)))])))
          else (w, Inl (McpError MethodNotFound (''Unknown tool: '' @ req_name request))))"

fun serve ::
  "config \<Rightarrow> cheerio \<Rightarrow> network \<Rightarrow> world \<Rightarrow> request list \<Rightarrow> world" where
  \<comment> \<open>the requests are handled one after the other\<close>
  "serve cfg ch net w [] = w"
| "serve cfg ch net w (r # rs) = serve cfg ch net (fst (handler cfg ch net w r)) rs"


definition code :: "error + 'a \<Rightarrow> ErrorCode option" where
  \<comment> \<open>the \<open>code\<close> of the \<open>McpError\<close> thrown, if one is thrown\<close>
  "code r = (case r of Inl (McpError c m) \<Rightarrow> Some c | _ \<Rightarrow> None)"


section \<open>Searching, in the words of the specification\<close>

text \<open>
  The outcomes of fetching each name of a list in turn, each fetch in the world that the
  one before has left; and the documents among a list of outcomes.
\<close>

fun fetchEach ::
  "config \<Rightarrow> cheerio \<Rightarrow> network \<Rightarrow> world \<Rightarrow> string list \<Rightarrow> (error + ApiDoc) list" where
  "fetchEach cfg ch net w [] = []"
| "fetchEach cfg ch net w (element # rest) =
     (case fetchDoc cfg ch net w element of
        (w', r) \<Rightarrow> r # fetchEach cfg ch net w' rest)"

fun successes :: "(error + ApiDoc) list \<Rightarrow> ApiDoc list" where
  "successes [] = []"
| "successes (Inl e # rs) = successes rs"
| "successes (Inr doc # rs) = doc # successes rs"


section \<open>The groups of the error message, in the words of the specification\<close>

text \<open>
  The sections are listed in the order of their first occurrence in the table, and
  each section lists its names in the order of the table. \<open>groupedFrom\<close> is the same
  for a table of which a part has been grouped already, and \<open>addElement\<close> is one round
  of the \<open>forEach\<close> for a section that is not a member of \<open>Object.prototype\<close>.
\<close>

fun firstOccurrences :: "'a list \<Rightarrow> 'a list" where
  "firstOccurrences [] = []"
| "firstOccurrences (x # xs) = x # filter (\<lambda>y. y \<noteq> x) (firstOccurrences xs)"

definition groupedBySection :: "(string \<times> string) list \<Rightarrow> (string \<times> string list) list" where
  "groupedBySection es =
     map (\<lambda>s. (s, map fst (filter (\<lambda>(element, path). sectionOf path = s) es)))
       (firstOccurrences (map (\<lambda>(element, path). sectionOf path) es))"

definition groupedFrom ::
  "(string \<times> string list) list \<Rightarrow> (string \<times> string) list \<Rightarrow> (string \<times> string list) list" where
  "groupedFrom acc es =
     map (\<lambda>s. (s, (case map_of acc s of None \<Rightarrow> [] | Some xs \<Rightarrow> xs)
                  @ map fst (filter (\<lambda>(element, path). sectionOf path = s) es)))
       (firstOccurrences (map fst acc @ map (\<lambda>(element, path). sectionOf path) es))"

definition addElement ::
  "(string \<times> string list) list \<Rightarrow> string \<Rightarrow> string \<Rightarrow> (string \<times> string list) list" where
  "addElement acc s k =
     (if map_of acc s = None then acc @ [(s, [k])]
      else map (\<lambda>(s', xs). if s' = s then (s', xs @ [k]) else (s', xs)) acc)"


section \<open>Test fixtures\<close>

text \<open>
  The scenario of the specification: the endpoint table \<open>{slider: "/inputs/slider/"}\<close>
  with the base URL \<open>https://x/api\<close>, and a page with a title and one paragraph. Next
  to it a page without a content container, and the inner HTML of a parameter table. The
  parser and the serialiser of the fixture know these three texts and their trees.
\<close>

definition sliderDocs :: config where
  "sliderDocs =
     \<lparr>baseUrl = ''https://x/api'', endpoints = [(''slider'', ''/inputs/slider/'')]\<rparr>"

definition sliderPage :: string where
  "sliderPage =
     ''<div class='' @ [CHR 0x22] @ ''md-content'' @ [CHR 0x22]
     @ ''><h1>Slider</h1><p>A slider.</p></div>''"

definition sliderTree :: "node list" where
  "sliderTree =
     [Element ''html'' []
        [Element ''head'' [] [],
         Element ''body'' []
           [Element ''div'' [(''class'', ''md-content'')]
              [Element ''h1'' [] [Text ''Slider''],
               Element ''p'' [] [Text ''A slider.'']]]]]"

definition plainPage :: string where
  "plainPage = ''<h1>Moved</h1><p>Nothing here.</p>''"

definition plainTree :: "node list" where
  "plainTree =
     [Element ''html'' []
        [Element ''head'' [] [],
         Element ''body'' []
           [Element ''h1'' [] [Text ''Moved''],
            Element ''p'' [] [Text ''Nothing here.'']]]]"

definition tableRows :: "node list" where
  "tableRows =
     [Element ''tr'' [] [Element ''td'' [] [Text ''n''], Element ''td'' [] [Text ''d'']],
      Element ''tr'' []
        [Element ''td'' [] [Text ''n''], Element ''td'' [] [Text ''d''],
         Element ''td'' [] [Text ''required'']],
      Element ''tr'' [] [Element ''td'' [] [Text ''alone'']],
      Element ''tr'' []
        [Element ''td'' [] [Text '' start ''], Element ''td'' [] [Text ''Where to start''],
         Element ''td'' [] [Text ''Required'']]]"

definition tableSection :: "node list" where
  \<comment> \<open>the children of a \<open>doc-children\<close> block\<close>
  "tableSection = [Element ''table'' [] [Element ''tbody'' [] tableRows]]"

definition tableHtml :: string where
  "tableHtml =
     ''<table><tbody><tr><td>n</td><td>d</td></tr>''
     @ ''<tr><td>n</td><td>d</td><td>required</td></tr>''
     @ ''<tr><td>alone</td></tr>''
     @ ''<tr><td> start </td><td>Where to start</td><td>Required</td></tr>''
     @ ''</tbody></table>''"

definition tableTree :: "node list" where
  "tableTree =
     [Element ''html'' [] [Element ''head'' [] [], Element ''body'' [] tableSection]]"

definition testCheerio :: cheerio where
  "testCheerio =
     \<lparr>load = (\<lambda>s. if s = sliderPage then sliderTree
                  else if s = plainPage then plainTree
                  else if s = tableHtml then tableTree
                  else []),
      loadValue = (\<lambda>v. None),
      html = (\<lambda>ns. if ns = tableSection then tableHtml else [])\<rparr>"

definition testNetwork :: network where
  \<comment> \<open>serves the two pages at one URL each, an empty body at a third, the body \<open>0\<close>
      at a fourth, and fails elsewhere\<close>
  "testNetwork =
     (\<lambda>history (url, headers).
        if url = ''https://x/api/inputs/slider/'' then Response (JsString sliderPage)
        else if url = ''https://x/api/plain/'' then Response (JsString plainPage)
        else if url = ''https://x/api/empty/'' then Response (JsString [])
        else if url = ''https://x/api/zero/'' then Response (JsNumber 0 0)
        else Failed)"

definition testDocs :: config where
  "testDocs =
     \<lparr>baseUrl = ''https://x/api'',
      endpoints = [(''empty'', ''/empty/''), (''slider'', ''/inputs/slider/''),
                   (''plain'', ''/plain/''), (''gone'', ''/gone/'')]\<rparr>"


section \<open>The URL of a request\<close>

text \<open>
  On a string that does not begin with a slash, the regular expression of \<open>fetchDoc\<close>
  does what the specification says of the URL construction.
\<close>

lemma replace_last_slash:
  "tl0 = [] \<or> hd tl0 \<noteq> CHR ''/'' \<Longrightarrow> replaceDupSlashes (CHR ''/'' # tl0) = CHR ''/'' # replaceDupSlashes tl0"
  by (cases tl0 rule: replaceDupSlashes.cases) auto

lemma replace_skip:
  "d \<noteq> CHR ''/'' \<Longrightarrow> replaceDupSlashes (c # d # rest) = c # replaceDupSlashes (d # rest)"
  by (cases rest) auto

lemma dropWhile_isSlash_head:
  "dropWhile isSlash s = [] \<or> hd (dropWhile isSlash s) \<noteq> CHR ''/''"
  using hd_dropWhile [of isSlash s] by (auto simp: isSlash_def)

lemma replace_eq_collapse:
  "s = [] \<or> hd s \<noteq> CHR ''/'' \<Longrightarrow> replaceDupSlashes s = collapseRuns prev s"
proof (induction "length s" arbitrary: s prev rule: less_induct)
  case less
  show ?case
  proof (cases s)
    case Nil
    then show ?thesis by simp
  next
    case (Cons c rest)
    with less.prems have c: "c \<noteq> CHR ''/''" by simp
    have IH: "\<And>t p. length t < length s \<Longrightarrow> t = [] \<or> hd t \<noteq> CHR ''/'' \<Longrightarrow>
                replaceDupSlashes t = collapseRuns p t"
      using less.hyps by blast
    show ?thesis
    proof (cases rest)
      case Nil
      with Cons c show ?thesis by (simp add: isSlash_def)
    next
      case r1: (Cons d rest1)
      show ?thesis
      proof (cases "d = CHR ''/''")
        case False
        have "replaceDupSlashes (d # rest1) = collapseRuns (Some c) (d # rest1)"
          using IH [of "d # rest1" "Some c"] False Cons r1 by simp
        then show ?thesis
          using Cons r1 c False by (simp add: replace_skip isSlash_def)
      next
        case d: True
        show ?thesis
        proof (cases rest1)
          case Nil
          with Cons r1 c d show ?thesis by (simp add: isSlash_def)
        next
          case r2: (Cons e rest2)
          show ?thesis
          proof (cases "e = CHR ''/''")
            case False
            have "replaceDupSlashes (e # rest2) = collapseRuns (Some CHR ''/'') (e # rest2)"
              using IH [of "e # rest2" "Some CHR ''/''"] False Cons r1 r2 by simp
            moreover have "replaceDupSlashes (c # d # e # rest2)
                 = c # CHR ''/'' # replaceDupSlashes (e # rest2)"
              using False d replace_last_slash [of "e # rest2"] by simp
            ultimately show ?thesis
              using Cons r1 r2 c d False by (simp add: isSlash_def)
          next
            case e: True
            let ?t = "dropWhile isSlash rest2"
            have t: "?t = [] \<or> hd ?t \<noteq> CHR ''/''" by (rule dropWhile_isSlash_head)
            have lt: "length ?t < length s"
              using Cons r1 r2 length_dropWhile_le [of isSlash rest2] by simp
            have IHt: "replaceDupSlashes ?t = collapseRuns (Some CHR ''/'') ?t"
              using IH [OF lt t] .
            show ?thesis
            proof (cases "c = CHR '':''")
              case False
              then show ?thesis
                using Cons r1 r2 c d e IHt by (simp add: isSlash_def)
            next
              case colon: True
              show ?thesis
              proof (cases rest2)
                case Nil
                then show ?thesis
                  using Cons r1 r2 c d e colon by (simp add: isSlash_def)
              next
                case r3: (Cons f rest3)
                show ?thesis
                proof (cases "f = CHR ''/''")
                  case True
                  then show ?thesis
                    using Cons r1 r2 r3 c d e colon IHt by (simp add: isSlash_def)
                next
                  case False
                  have "replaceDupSlashes (f # rest3) = collapseRuns (Some CHR ''/'') (f # rest3)"
                    using IH [of "f # rest3" "Some CHR ''/''"] False Cons r1 r2 r3 by simp
                  moreover have "replaceDupSlashes (CHR ''/'' # f # rest3)
                      = CHR ''/'' # replaceDupSlashes (f # rest3)"
                    using False replace_last_slash [of "f # rest3"] by simp
                  ultimately show ?thesis
                    using Cons r1 r2 r3 c d e colon False by (simp add: isSlash_def)
                qed
              qed
            qed
          qed
        qed
      qed
    qed
  qed
qed


section \<open>Fetching a name of the endpoint table\<close>

lemma fetchDoc_present:
  assumes "map_of (endpoints cfg) element = Some path" and "path \<noteq> []"
  shows "fetchDoc cfg ch net w element =
     (case tryFetch ch net w (replaceDupSlashes (baseUrl cfg @ path)) of
        (w', Inl error) \<Rightarrow>
          (w', Inl (McpError InternalError (''Failed to fetch documentation for '' @ element)))
      | (w', Inr doc) \<Rightarrow> (w', Inr doc))"
  using assms by (simp add: fetchDoc_def getProperty_def split: prod.split sum.split)

lemma tryFetch_requests:
  "requests (fst (tryFetch ch net w url)) = requests w @ [(url, requestHeaders)]"
  by (simp add: tryFetch_def Let_def split: response.split)

lemma tryFetch_failed:
  assumes "net (requests w) (url, requestHeaders) = Failed
           \<or> net (requests w) (url, requestHeaders) = Response (JsString [])
           \<or> (net (requests w) (url, requestHeaders) = Response data
               \<and> \<not> truthyValue data)"
  shows "\<exists>e. snd (tryFetch ch net w url) = Inl e"
  using assms by (auto simp: tryFetch_def Let_def extractResponse_def)

lemma includes_suffix: "includes_str (p @ s) s"
  by (simp add: includes_str_def sublist_appendI)

lemma marimo_slider: "map_of (endpoints marimoDocs) ''slider'' = Some ''/inputs/slider/''"
  by (simp add: marimoDocs_def marimoEndpoints_def)

lemma marimo_slider_url:
  "''https://docs.marimo.io/api/inputs/slider/''
     = replaceDupSlashes (baseUrl marimoDocs @ ''/inputs/slider/'')"
  by (simp add: marimoDocs_def)

lemma marimo_wellformed:
  "\<forall>(k, p) \<in> set marimoEndpoints. map_of marimoEndpoints k = Some p \<and> p \<noteq> []"
  by code_simp

lemma index_wellformed:
  "\<forall>(k, p) \<in> set indexEndpoints.
     map_of indexEndpoints k = Some p \<and> p \<noteq> []
     \<and> collapseRuns None (baseUrl indexDocs @ p) = baseUrl indexDocs @ p"
  by code_simp

lemma fetchDoc_failure:
  assumes "map_of (endpoints cfg) element = Some path" and "path \<noteq> []"
    and "net (requests w) (replaceDupSlashes (baseUrl cfg @ path), requestHeaders) = Failed
         \<or> net (requests w) (replaceDupSlashes (baseUrl cfg @ path), requestHeaders)
             = Response (JsString [])
         \<or> (net (requests w) (replaceDupSlashes (baseUrl cfg @ path), requestHeaders)
               = Response data
             \<and> \<not> truthyValue data)"
  shows "snd (fetchDoc cfg ch net w element)
     = Inl (McpError InternalError (''Failed to fetch documentation for '' @ element))"
proof -
  obtain e where "snd (tryFetch ch net w (replaceDupSlashes (baseUrl cfg @ path))) = Inl e"
    using tryFetch_failed [of net w "replaceDupSlashes (baseUrl cfg @ path)" data ch] assms(3)
    by blast
  then show ?thesis
    using assms(1,2)
    by (cases "tryFetch ch net w (replaceDupSlashes (baseUrl cfg @ path))")
       (simp add: fetchDoc_present)
qed

lemma fetchDoc_error:
  assumes "map_of (endpoints cfg) element = Some path" and "path \<noteq> []"
    and "snd (fetchDoc cfg ch net w element) = Inl e"
  shows "e = McpError InternalError (''Failed to fetch documentation for '' @ element)"
  using assms
  by (cases "tryFetch ch net w (replaceDupSlashes (baseUrl cfg @ path))")
     (auto simp: fetchDoc_present split: sum.splits)

text \<open>
  Claim C3. Let the name be in the endpoint table, with a path that is not empty. If the
  GET request fails, or the body of the response is empty, or \<open>response.data\<close> is falsy
  in another way (a body that axios parses to \<open>null\<close>, \<open>false\<close> or zero), \<open>fetchDoc\<close>
  fails with the \<open>InternalError\<close> whose message is \<open>Failed to fetch documentation for\<close>
  and the name. No other error leaves \<open>fetchDoc\<close> for such a name: whatever is thrown
  inside the \<open>try\<close> block, the error of the empty response included, is replaced by this
  one. The message contains the name. All of this holds for every name of the program's
  table, whose paths are not empty.
\<close>

theorem fetch_failure_is_internal_error:
  "(map_of (endpoints cfg) element = Some path \<and> path \<noteq> []
      \<and> (net (requests w) (replaceDupSlashes (baseUrl cfg @ path), requestHeaders) = Failed
         \<or> net (requests w) (replaceDupSlashes (baseUrl cfg @ path), requestHeaders)
             = Response (JsString [])
         \<or> (net (requests w) (replaceDupSlashes (baseUrl cfg @ path), requestHeaders)
               = Response data
             \<and> \<not> truthyValue data)) \<longrightarrow>
    snd (fetchDoc cfg ch net w element)
      = Inl (McpError InternalError (''Failed to fetch documentation for '' @ element)))
   \<and> (map_of (endpoints cfg) element = Some path \<and> path \<noteq> []
        \<and> snd (fetchDoc cfg ch net w element) = Inl e \<longrightarrow>
      e = McpError InternalError (''Failed to fetch documentation for '' @ element))
   \<and> includes_str (''Failed to fetch documentation for '' @ element) element
   \<and> (\<forall>(name, endpoint) \<in> set marimoEndpoints.
        (net (requests w) (replaceDupSlashes (baseUrl marimoDocs @ endpoint), requestHeaders)
           = Failed
         \<or> net (requests w) (replaceDupSlashes (baseUrl marimoDocs @ endpoint), requestHeaders)
             = Response (JsString [])
         \<or> (net (requests w)
               (replaceDupSlashes (baseUrl marimoDocs @ endpoint), requestHeaders)
               = Response data
             \<and> \<not> truthyValue data) \<longrightarrow>
         snd (fetchDoc marimoDocs ch net w name)
           = Inl (McpError InternalError (''Failed to fetch documentation for '' @ name)))
        \<and> (snd (fetchDoc marimoDocs ch net w name) = Inl e \<longrightarrow>
             e = McpError InternalError (''Failed to fetch documentation for '' @ name)))"
proof (intro conjI)
  show "map_of (endpoints cfg) element = Some path \<and> path \<noteq> []
      \<and> (net (requests w) (replaceDupSlashes (baseUrl cfg @ path), requestHeaders) = Failed
         \<or> net (requests w) (replaceDupSlashes (baseUrl cfg @ path), requestHeaders)
             = Response (JsString [])
         \<or> (net (requests w) (replaceDupSlashes (baseUrl cfg @ path), requestHeaders)
               = Response data
             \<and> \<not> truthyValue data)) \<longrightarrow>
    snd (fetchDoc cfg ch net w element)
      = Inl (McpError InternalError (''Failed to fetch documentation for '' @ element))"
    using fetchDoc_failure [of cfg element path net w data ch] by blast
  show "map_of (endpoints cfg) element = Some path \<and> path \<noteq> []
        \<and> snd (fetchDoc cfg ch net w element) = Inl e \<longrightarrow>
      e = McpError InternalError (''Failed to fetch documentation for '' @ element)"
    using fetchDoc_error by blast
  show "includes_str (''Failed to fetch documentation for '' @ element) element"
    by (rule includes_suffix)
  show "\<forall>(name, endpoint) \<in> set marimoEndpoints.
        (net (requests w) (replaceDupSlashes (baseUrl marimoDocs @ endpoint), requestHeaders)
           = Failed
         \<or> net (requests w) (replaceDupSlashes (baseUrl marimoDocs @ endpoint), requestHeaders)
             = Response (JsString [])
         \<or> (net (requests w)
               (replaceDupSlashes (baseUrl marimoDocs @ endpoint), requestHeaders)
               = Response data
             \<and> \<not> truthyValue data) \<longrightarrow>
         snd (fetchDoc marimoDocs ch net w name)
           = Inl (McpError InternalError (''Failed to fetch documentation for '' @ name)))
        \<and> (snd (fetchDoc marimoDocs ch net w name) = Inl e \<longrightarrow>
             e = McpError InternalError (''Failed to fetch documentation for '' @ name))"
  proof (intro ballI, clarify, intro conjI impI)
    fix name endpoint
    assume m: "(name, endpoint) \<in> set marimoEndpoints"
    then have p: "map_of (endpoints marimoDocs) name = Some endpoint" "endpoint \<noteq> []"
      using marimo_wellformed by (auto simp: marimoDocs_def)
    {
      assume "net (requests w)
            (replaceDupSlashes (baseUrl marimoDocs @ endpoint), requestHeaders) = Failed
         \<or> net (requests w)
            (replaceDupSlashes (baseUrl marimoDocs @ endpoint), requestHeaders)
             = Response (JsString [])
         \<or> (net (requests w)
               (replaceDupSlashes (baseUrl marimoDocs @ endpoint), requestHeaders)
               = Response data
             \<and> \<not> truthyValue data)"
      then show "snd (fetchDoc marimoDocs ch net w name)
           = Inl (McpError InternalError (''Failed to fetch documentation for '' @ name))"
        using p by (intro fetchDoc_failure [where data = data])
    }
    {
      assume "snd (fetchDoc marimoDocs ch net w name) = Inl e"
      then show "e = McpError InternalError (''Failed to fetch documentation for '' @ name)"
        using p by (intro fetchDoc_error)
    }
  qed
qed

theorem fetch_failure_is_internal_error_witness:
  "snd (fetchDoc marimoDocs testCheerio testNetwork initialWorld ''slider'')
     = Inl (McpError InternalError ''Failed to fetch documentation for slider'')
   \<and> snd (fetchDoc \<lparr>baseUrl = ''https://x/api'', endpoints = [(''empty'', ''/empty/'')]\<rparr>
              testCheerio testNetwork initialWorld ''empty'')
     = Inl (McpError InternalError ''Failed to fetch documentation for empty'')
   \<and> snd (fetchDoc \<lparr>baseUrl = ''https://x/api'', endpoints = [(''zero'', ''/zero/'')]\<rparr>
              testCheerio testNetwork initialWorld ''zero'')
     = Inl (McpError InternalError ''Failed to fetch documentation for zero'')"
proof -
  have "testNetwork (requests initialWorld)
          (replaceDupSlashes (baseUrl marimoDocs @ ''/inputs/slider/''), requestHeaders)
        = Failed"
    by (simp add: testNetwork_def marimo_slider_url [symmetric])
  then have "snd (fetchDoc marimoDocs testCheerio testNetwork initialWorld ''slider'')
     = Inl (McpError InternalError ''Failed to fetch documentation for slider'')"
    using fetch_failure_is_internal_error
        [where cfg = marimoDocs and element = "''slider''" and path = "''/inputs/slider/''"
           and net = testNetwork and w = initialWorld and ch = testCheerio, THEN conjunct1]
      marimo_slider
    by simp
  moreover have "snd (fetchDoc \<lparr>baseUrl = ''https://x/api'', endpoints = [(''empty'', ''/empty/'')]\<rparr>
              testCheerio testNetwork initialWorld ''empty'')
     = Inl (McpError InternalError ''Failed to fetch documentation for empty'')"
    using fetch_failure_is_internal_error
        [where cfg = "\<lparr>baseUrl = ''https://x/api'', endpoints = [(''empty'', ''/empty/'')]\<rparr>"
           and element = "''empty''" and path = "''/empty/''"
           and net = testNetwork and w = initialWorld and ch = testCheerio, THEN conjunct1]
    by (simp add: testNetwork_def)
  moreover have "snd (fetchDoc \<lparr>baseUrl = ''https://x/api'', endpoints = [(''zero'', ''/zero/'')]\<rparr>
              testCheerio testNetwork initialWorld ''zero'')
     = Inl (McpError InternalError ''Failed to fetch documentation for zero'')"
    using fetch_failure_is_internal_error
        [where cfg = "\<lparr>baseUrl = ''https://x/api'', endpoints = [(''zero'', ''/zero/'')]\<rparr>"
           and element = "''zero''" and path = "''/zero/''" and data = "JsNumber 0 0"
           and net = testNetwork and w = initialWorld and ch = testCheerio, THEN conjunct1]
    by (simp add: testNetwork_def)
  ultimately show ?thesis by simp
qed

lemma fetchDoc_one_get:
  assumes "map_of (endpoints cfg) element = Some path" and "path \<noteq> []"
    and "baseUrl cfg \<noteq> []" and "hd (baseUrl cfg) \<noteq> CHR ''/''"
  shows "requests (fst (fetchDoc cfg ch net w element))
           = requests w @ [(collapseRuns None (baseUrl cfg @ path), requestHeaders)]"
proof -
  have "replaceDupSlashes (baseUrl cfg @ path) = collapseRuns None (baseUrl cfg @ path)"
    using assms(3,4) by (intro replace_eq_collapse) simp
  moreover have "requests (fst (fetchDoc cfg ch net w element))
      = requests (fst (tryFetch ch net w (replaceDupSlashes (baseUrl cfg @ path))))"
    using assms(1,2)
    by (cases "tryFetch ch net w (replaceDupSlashes (baseUrl cfg @ path))")
       (auto simp: fetchDoc_present split: sum.splits)
  ultimately show ?thesis by (simp add: tryFetch_requests)
qed

lemma fetchDoc_index_one_get:
  assumes "map_of (endpoints cfg) element = Some path" and "path \<noteq> []"
  shows "requests (fst (fetchDoc_index cfg ch net w element))
           = requests w @ [(baseUrl cfg @ path, requestHeaders)]"
proof -
  have "requests (fst (fetchDoc_index cfg ch net w element))
      = requests (fst (tryFetch ch net w (baseUrl cfg @ path)))"
    using assms
    by (cases "tryFetch ch net w (baseUrl cfg @ path)")
       (auto simp: fetchDoc_index_def getProperty_def split: sum.splits)
  then show ?thesis by (simp add: tryFetch_requests)
qed

text \<open>
  Claim C4. Let the name be in the endpoint table, with a path that is not empty, and let
  the base URL begin with a character other than a slash (as a URL with a scheme does).
  Then \<open>fetchDoc\<close> issues exactly one GET request: the list of requests grows by one
  entry, the fixed headers and the URL made of the base URL and the path, with every run
  of slashes collapsed to a single slash; only a run right behind a colon keeps the two
  slashes of \<open>://\<close>. This holds for every name of the program's table. In
  \<open>src/index.ts\<close>, where the URL is not rewritten, it holds for every name of that
  table, of which no URL has a run to collapse.
\<close>

theorem fetch_issues_one_get:
  "(map_of (endpoints cfg) element = Some path \<and> path \<noteq> []
      \<and> baseUrl cfg \<noteq> [] \<and> hd (baseUrl cfg) \<noteq> CHR ''/'' \<longrightarrow>
    requests (fst (fetchDoc cfg ch net w element))
      = requests w @ [(collapseRuns None (baseUrl cfg @ path), requestHeaders)])
   \<and> (\<forall>(name, endpoint) \<in> set marimoEndpoints.
        requests (fst (fetchDoc marimoDocs ch net w name))
          = requests w
            @ [(collapseRuns None (baseUrl marimoDocs @ endpoint), requestHeaders)])
   \<and> (\<forall>(name, endpoint) \<in> set indexEndpoints.
        requests (fst (fetchDoc_index indexDocs ch net w name))
          = requests w
            @ [(collapseRuns None (baseUrl indexDocs @ endpoint), requestHeaders)])"
proof (intro conjI)
  show "map_of (endpoints cfg) element = Some path \<and> path \<noteq> []
      \<and> baseUrl cfg \<noteq> [] \<and> hd (baseUrl cfg) \<noteq> CHR ''/'' \<longrightarrow>
    requests (fst (fetchDoc cfg ch net w element))
      = requests w @ [(collapseRuns None (baseUrl cfg @ path), requestHeaders)]"
    using fetchDoc_one_get by blast
  show "\<forall>(name, endpoint) \<in> set marimoEndpoints.
        requests (fst (fetchDoc marimoDocs ch net w name))
          = requests w
            @ [(collapseRuns None (baseUrl marimoDocs @ endpoint), requestHeaders)]"
  proof (intro ballI, clarify)
    fix name endpoint
    assume "(name, endpoint) \<in> set marimoEndpoints"
    then have "map_of (endpoints marimoDocs) name = Some endpoint" "endpoint \<noteq> []"
      using marimo_wellformed by (auto simp: marimoDocs_def)
    moreover have "baseUrl marimoDocs \<noteq> []" "hd (baseUrl marimoDocs) \<noteq> CHR ''/''"
      by (simp_all add: marimoDocs_def)
    ultimately show "requests (fst (fetchDoc marimoDocs ch net w name))
          = requests w
            @ [(collapseRuns None (baseUrl marimoDocs @ endpoint), requestHeaders)]"
      by (rule fetchDoc_one_get)
  qed
  show "\<forall>(name, endpoint) \<in> set indexEndpoints.
        requests (fst (fetchDoc_index indexDocs ch net w name))
          = requests w
            @ [(collapseRuns None (baseUrl indexDocs @ endpoint), requestHeaders)]"
  proof (intro ballI, clarify)
    fix name endpoint
    assume "(name, endpoint) \<in> set indexEndpoints"
    then have "map_of indexEndpoints name = Some endpoint \<and> endpoint \<noteq> []
      \<and> collapseRuns None (baseUrl indexDocs @ endpoint) = baseUrl indexDocs @ endpoint"
      using index_wellformed by fast
    moreover have "endpoints indexDocs = indexEndpoints"
      by (simp add: indexDocs_def)
    ultimately have i: "map_of (endpoints indexDocs) name = Some endpoint" "endpoint \<noteq> []"
      "collapseRuns None (baseUrl indexDocs @ endpoint) = baseUrl indexDocs @ endpoint"
      by simp_all
    show "requests (fst (fetchDoc_index indexDocs ch net w name))
          = requests w
            @ [(collapseRuns None (baseUrl indexDocs @ endpoint), requestHeaders)]"
      using fetchDoc_index_one_get [OF i(1,2)] i(3) by simp
  qed
qed

theorem fetch_issues_one_get_witness:
  "requests (fst (fetchDoc marimoDocs testCheerio testNetwork initialWorld ''slider''))
     = [(''https://docs.marimo.io/api/inputs/slider/'', requestHeaders)]
   \<and> requests (fst (fetchDoc \<lparr>baseUrl = ''https://x/api/'', endpoints = [(''inputs'', ''/inputs/'')]\<rparr>
                       testCheerio testNetwork initialWorld ''inputs''))
     = [(''https://x/api/inputs/'', requestHeaders)]
   \<and> requests (fst (fetchDoc_index indexDocs testCheerio testNetwork initialWorld ''slider''))
     = [(''https://docs.marimo.io/api/inputs/range_slider/'', requestHeaders)]"
proof -
  note t = fetch_issues_one_get [where ch = testCheerio and net = testNetwork
      and w = initialWorld]
  have "requests (fst (fetchDoc marimoDocs testCheerio testNetwork initialWorld ''slider''))
     = [(''https://docs.marimo.io/api/inputs/slider/'', requestHeaders)]"
    using t [where cfg = marimoDocs and element = "''slider''" and path = "''/inputs/slider/''",
        THEN conjunct1] marimo_slider
    by (simp add: marimoDocs_def initialWorld_def isSlash_def)
  moreover have "requests (fst (fetchDoc
        \<lparr>baseUrl = ''https://x/api/'', endpoints = [(''inputs'', ''/inputs/'')]\<rparr>
        testCheerio testNetwork initialWorld ''inputs''))
     = [(''https://x/api/inputs/'', requestHeaders)]"
    using t [where cfg = "\<lparr>baseUrl = ''https://x/api/'', endpoints = [(''inputs'', ''/inputs/'')]\<rparr>"
        and element = "''inputs''" and path = "''/inputs/''", THEN conjunct1]
    by (simp add: initialWorld_def isSlash_def)
  moreover have "(''slider'', ''/range_slider/'') \<in> set indexEndpoints"
    by (simp add: indexEndpoints_def)
  then have "requests (fst (fetchDoc_index indexDocs testCheerio testNetwork initialWorld ''slider''))
     = [(''https://docs.marimo.io/api/inputs/range_slider/'', requestHeaders)]"
    using t [where cfg = indexDocs, THEN conjunct2, THEN conjunct2]
    by (auto simp: indexDocs_def initialWorld_def isSlash_def)
  ultimately show ?thesis by simp
qed


section \<open>The extractor\<close>

lemma find_sel_empty: "find_sel doc [] P = []"
  by (simp add: find_sel_def)

lemma findDescendant_empty: "findDescendant doc [] P Q = []"
  by (auto simp: findDescendant_def filter_empty_conv list_ex_iff)

lemma select_empty:
  "\<forall>(q, n) \<in> set (allNodes doc). \<not> P n \<Longrightarrow> select doc P = []"
  by (auto simp: select_def filter_empty_conv)

lemma extractDoc_no_content:
  assumes "select (load ch data) (hasClass ''md-content'') = []"
  shows "extractDoc ch data
           = \<lparr>title = [], description = [], parameters = [], examples = []\<rparr>"
  using assms
  by (simp add: extractDoc_def extractTree_def Let_def find_sel_empty findDescendant_empty
        first_sel_def text_of_def trim_def)

lemma fetchDoc_response:
  assumes "map_of (endpoints cfg) element = Some path" and "path \<noteq> []"
    and "net (requests w) (replaceDupSlashes (baseUrl cfg @ path), requestHeaders)
           = Response (JsString data)"
    and "data \<noteq> []"
  shows "fetchDoc cfg ch net w element
     = (w\<lparr>requests := requests w
                 @ [(replaceDupSlashes (baseUrl cfg @ path), requestHeaders)]\<rparr>,
        Inr (extractDoc ch data))"
  using assms by (simp add: fetchDoc_present tryFetch_def extractResponse_def)

lemma plainTree_nodes:
  "allNodes plainTree =
     [([0], Element ''html'' []
        [Element ''head'' [] [],
         Element ''body'' []
           [Element ''h1'' [] [Text ''Moved''],
            Element ''p'' [] [Text ''Nothing here.'']]]),
      ([0, 0], Element ''head'' [] []),
      ([0, 1], Element ''body'' []
           [Element ''h1'' [] [Text ''Moved''],
            Element ''p'' [] [Text ''Nothing here.'']]),
      ([0, 1, 0], Element ''h1'' [] [Text ''Moved'']),
      ([0, 1, 0, 0], Text ''Moved''),
      ([0, 1, 1], Element ''p'' [] [Text ''Nothing here.'']),
      ([0, 1, 1, 0], Text ''Nothing here.'')]"
  by (simp add: allNodes_def plainTree_def)

lemma sliderTree_nodes:
  "allNodes sliderTree =
     [([0], Element ''html'' []
        [Element ''head'' [] [],
         Element ''body'' []
           [Element ''div'' [(''class'', ''md-content'')]
              [Element ''h1'' [] [Text ''Slider''],
               Element ''p'' [] [Text ''A slider.'']]]]),
      ([0, 0], Element ''head'' [] []),
      ([0, 1], Element ''body'' []
           [Element ''div'' [(''class'', ''md-content'')]
              [Element ''h1'' [] [Text ''Slider''],
               Element ''p'' [] [Text ''A slider.'']]]),
      ([0, 1, 0], Element ''div'' [(''class'', ''md-content'')]
              [Element ''h1'' [] [Text ''Slider''],
               Element ''p'' [] [Text ''A slider.'']]),
      ([0, 1, 0, 0], Element ''h1'' [] [Text ''Slider'']),
      ([0, 1, 0, 0, 0], Text ''Slider''),
      ([0, 1, 0, 1], Element ''p'' [] [Text ''A slider.'']),
      ([0, 1, 0, 1, 0], Text ''A slider.'')]"
  by (simp add: allNodes_def sliderTree_def)

lemma slider_extract:
  assumes "load ch sliderPage = sliderTree"
  shows "extractDoc ch sliderPage
     = \<lparr>title = ''Slider'', description = ''A slider.'', parameters = [], examples = []\<rparr>"
  using assms
  by (simp add: extractDoc_def extractTree_def Let_def select_def find_sel_def findDescendant_def
        first_sel_def text_of_def trim_def isWhiteSpace_def isAncestor_def sliderTree_nodes)

lemma pages_differ: "plainPage \<noteq> sliderPage" "sliderPage \<noteq> []" "plainPage \<noteq> []"
  by (simp_all add: plainPage_def sliderPage_def)

text \<open>
  Claim C6. If the parsed page has no element of the class \<open>md-content\<close>, the extractor
  yields the record with an empty title, an empty description, no parameters and no
  examples. The extractor is a total function into the records: it raises no error.
\<close>

theorem no_content_container:
  assumes "\<forall>(q, n) \<in> set (allNodes (load ch data)). \<not> hasClass ''md-content'' n"
  shows "extractDoc ch data
           = \<lparr>title = [], description = [], parameters = [], examples = []\<rparr>"
  using assms by (intro extractDoc_no_content select_empty)

theorem no_content_container_witness:
  "extractDoc testCheerio plainPage
     = \<lparr>title = [], description = [], parameters = [], examples = []\<rparr>"
proof -
  have l: "load testCheerio plainPage = plainTree"
    by (simp add: testCheerio_def pages_differ)
  have h: "\<forall>(q, n) \<in> set (allNodes (load testCheerio plainPage)). \<not> hasClass ''md-content'' n"
    by (simp add: l plainTree_nodes)
  show ?thesis
    using no_content_container [OF h] .
qed

text \<open>
  Claim C7. With the endpoint table \<open>{slider: "/inputs/slider/"}\<close> and the base URL
  \<open>https://x/api\<close>, let the network serve, at the URL of \<open>slider\<close>, the page
  \<open><div class="md-content"><h1>Slider</h1><p>A slider.</p></div>\<close> (which is not JSON
  text, so that \<open>response.data\<close> is this string), and let the parser
  make of this page the tree of its elements. Then fetching \<open>slider\<close> issues the one
  GET request and yields the record with the title \<open>Slider\<close>, the description
  \<open>A slider.\<close>, no parameters and no examples.
\<close>

theorem slider_scenario:
  assumes "load ch sliderPage = sliderTree"
    and "net (requests w) (''https://x/api/inputs/slider/'', requestHeaders)
           = Response (JsString sliderPage)"
  shows "fetchDoc sliderDocs ch net w ''slider''
     = (w\<lparr>requests := requests w @ [(''https://x/api/inputs/slider/'', requestHeaders)]\<rparr>,
        Inr \<lparr>title = ''Slider'', description = ''A slider.'', parameters = [],
             examples = []\<rparr>)"
proof -
  have u: "replaceDupSlashes (baseUrl sliderDocs @ ''/inputs/slider/'')
             = ''https://x/api/inputs/slider/''"
    by (simp add: sliderDocs_def)
  have "fetchDoc sliderDocs ch net w ''slider''
     = (w\<lparr>requests := requests w @ [(''https://x/api/inputs/slider/'', requestHeaders)]\<rparr>,
        Inr (extractDoc ch sliderPage))"
    using fetchDoc_response [of sliderDocs "''slider''" "''/inputs/slider/''" net w sliderPage ch]
      assms(2)
    by (simp add: u pages_differ) (simp add: sliderDocs_def)
  then show ?thesis
    by (simp add: slider_extract [OF assms(1)])
qed

theorem slider_scenario_witness:
  "fetchDoc sliderDocs testCheerio testNetwork initialWorld ''slider''
     = (\<lparr>cache = Map.empty, lastFetch = None,
          requests = [(''https://x/api/inputs/slider/'', requestHeaders)]\<rparr>,
        Inr \<lparr>title = ''Slider'', description = ''A slider.'', parameters = [],
             examples = []\<rparr>)"
  using slider_scenario [of testCheerio testNetwork initialWorld]
  by (simp add: testCheerio_def testNetwork_def initialWorld_def)

lemma text_of_eq_sel:
  "text_of (eq_sel sel i)
     = (if i < length sel then map (\<lambda>(q, n). textContent n) sel ! i else [])"
  by (simp add: text_of_def eq_sel_def split: prod.split)

lemma parseRow_eq:
  "parseRow doc row =
     (let cells = map (\<lambda>(q, n). textContent n) (find_sel doc [row] (isTag ''td''))
      in if 2 \<le> length cells
         then Some \<lparr>name = trim (cells ! 0), Parameter.description = trim (cells ! 1),
                    required = (2 < length cells \<and> includes_str (cells ! 2) ''required'')\<rparr>
         else None)"
  by (simp add: parseRow_def Let_def text_of_eq_sel includes_str_def)

lemma parseRow_None:
  "parseRow doc row = None \<longleftrightarrow> length (find_sel doc [row] (isTag ''td'')) < 2"
  by (auto simp: parseRow_def Let_def)

lemma trim_letter [simp]: "trim ''n'' = ''n''" "trim ''d'' = ''d''"
  by (simp_all add: trim_def isWhiteSpace_def)

text \<open>
  Claim C5. Let \<open>cells\<close> be the texts of the \<open>td\<close> cells of a table row. A row with
  fewer than two cells yields no parameter. A row with two cells or more yields the
  parameter whose name is the trimmed first text and whose description is the trimmed
  second text; it is required if and only if there is a third cell and its text contains
  \<open>required\<close>, in this very spelling. So the cells \<open>n\<close>, \<open>d\<close> yield the name \<open>n\<close>, the
  description \<open>d\<close> and \<open>required\<close> false, and the cells \<open>n\<close>, \<open>d\<close>, \<open>required\<close> yield
  \<open>required\<close> true. The parameter parser goes through the rows of the parsed block in
  document order, leaves out the rows with fewer than two cells and raises no error.
\<close>

theorem parameter_rows:
  assumes "cells = map (\<lambda>(q, n). textContent n) (find_sel doc [row] (isTag ''td''))"
    and "block = load ch (innerHtml ch section)"
  shows "(length cells < 2 \<longrightarrow> parseRow doc row = None)
       \<and> (2 \<le> length cells \<longrightarrow>
            parseRow doc row
              = Some \<lparr>name = trim (cells ! 0), Parameter.description = trim (cells ! 1),
                      required = (2 < length cells \<and> includes_str (cells ! 2) ''required'')\<rparr>)
       \<and> (cells = [''n'', ''d''] \<longrightarrow>
            parseRow doc row
              = Some \<lparr>name = ''n'', Parameter.description = ''d'', required = False\<rparr>)
       \<and> (cells = [''n'', ''d'', ''required''] \<longrightarrow>
            parseRow doc row
              = Some \<lparr>name = ''n'', Parameter.description = ''d'', required = True\<rparr>)
       \<and> parseParameters ch section
           = map (the \<circ> parseRow block)
               (filter (\<lambda>r. 2 \<le> length (find_sel block [r] (isTag ''td'')))
                  (select block (isTag ''tr'')))"
proof (intro conjI impI)
  assume "length cells < 2"
  then show "parseRow doc row = None"
    using assms(1) by (simp add: parseRow_None)
next
  assume "2 \<le> length cells"
  then show "parseRow doc row
      = Some \<lparr>name = trim (cells ! 0), Parameter.description = trim (cells ! 1),
              required = (2 < length cells \<and> includes_str (cells ! 2) ''required'')\<rparr>"
    using assms(1) by (simp add: parseRow_eq Let_def)
next
  assume "cells = [''n'', ''d'']"
  then have "map (\<lambda>(q, n). textContent n) (find_sel doc [row] (isTag ''td'')) = [''n'', ''d'']"
    using assms(1) by simp
  then show "parseRow doc row
      = Some \<lparr>name = ''n'', Parameter.description = ''d'', required = False\<rparr>"
    by (simp add: parseRow_eq Let_def)
next
  assume "cells = [''n'', ''d'', ''required'']"
  then have "map (\<lambda>(q, n). textContent n) (find_sel doc [row] (isTag ''td''))
      = [''n'', ''d'', ''required'']"
    using assms(1) by simp
  then show "parseRow doc row
      = Some \<lparr>name = ''n'', Parameter.description = ''d'', required = True\<rparr>"
    by (simp add: parseRow_eq Let_def includes_str_def)
next
  have "(\<lambda>r. parseRow block r \<noteq> None)
      = (\<lambda>r. 2 \<le> length (find_sel block [r] (isTag ''td'')))"
    by (auto simp: parseRow_None)
  then show "parseParameters ch section
      = map (the \<circ> parseRow block)
          (filter (\<lambda>r. 2 \<le> length (find_sel block [r] (isTag ''td'')))
             (select block (isTag ''tr'')))"
    using assms(2) by (simp add: parseParameters_def Let_def map_filter_def)
qed


lemma tableRow_cells:
  "map (\<lambda>(q, n). textContent n) (find_sel tableTree [([0, 1, 0, 0, 0], tableRows ! 0)] (isTag ''td''))
     = [''n'', ''d'']"
  "map (\<lambda>(q, n). textContent n) (find_sel tableTree [([0, 1, 0, 0, 1], tableRows ! 1)] (isTag ''td''))
     = [''n'', ''d'', ''required'']"
  "map (\<lambda>(q, n). textContent n) (find_sel tableTree [([0, 1, 0, 0, 2], tableRows ! 2)] (isTag ''td''))
     = [''alone'']"
  by (simp_all add: find_sel_def allNodes_def tableTree_def tableSection_def tableRows_def
        isAncestor_def)

lemma tableTree_parameters:
  "map (the \<circ> parseRow tableTree)
     (filter (\<lambda>r. 2 \<le> length (find_sel tableTree [r] (isTag ''td'')))
        (select tableTree (isTag ''tr'')))
   = [\<lparr>name = ''n'', Parameter.description = ''d'', required = False\<rparr>,
      \<lparr>name = ''n'', Parameter.description = ''d'', required = True\<rparr>,
      \<lparr>name = ''start'', Parameter.description = ''Where to start'', required = False\<rparr>]"
  by (simp add: parseRow_def Let_def select_def find_sel_def allNodes_def tableTree_def
        tableSection_def tableRows_def isAncestor_def eq_sel_def text_of_def trim_def
        isWhiteSpace_def includes_str_def sublist_code)

lemma testCheerio_table:
  "load testCheerio
     (innerHtml testCheerio [([0], Element ''div'' [(''class'', ''doc doc-children'')] tableSection)])
   = tableTree"
  by (simp add: testCheerio_def innerHtml_def)
     (simp add: tableHtml_def sliderPage_def plainPage_def)

theorem parameter_rows_witness:
  "parseRow tableTree ([0, 1, 0, 0, 0], tableRows ! 0)
     = Some \<lparr>name = ''n'', Parameter.description = ''d'', required = False\<rparr>
   \<and> parseRow tableTree ([0, 1, 0, 0, 1], tableRows ! 1)
     = Some \<lparr>name = ''n'', Parameter.description = ''d'', required = True\<rparr>
   \<and> parseRow tableTree ([0, 1, 0, 0, 2], tableRows ! 2) = None
   \<and> parseParameters testCheerio
       [([0], Element ''div'' [(''class'', ''doc doc-children'')] tableSection)]
     = [\<lparr>name = ''n'', Parameter.description = ''d'', required = False\<rparr>,
        \<lparr>name = ''n'', Parameter.description = ''d'', required = True\<rparr>,
        \<lparr>name = ''start'', Parameter.description = ''Where to start'', required = False\<rparr>]"
proof -
  let ?section = "[([0], Element ''div'' [(''class'', ''doc doc-children'')] tableSection)]"
  have block: "tableTree = load testCheerio (innerHtml testCheerio ?section)"
    by (simp add: testCheerio_table)
  have "parseRow tableTree ([0, 1, 0, 0, 0], tableRows ! 0)
     = Some \<lparr>name = ''n'', Parameter.description = ''d'', required = False\<rparr>"
    using parameter_rows [OF tableRow_cells(1) [symmetric] block] by simp
  moreover have "parseRow tableTree ([0, 1, 0, 0, 1], tableRows ! 1)
     = Some \<lparr>name = ''n'', Parameter.description = ''d'', required = True\<rparr>"
    using parameter_rows [OF tableRow_cells(2) [symmetric] block]
    by (simp add: includes_str_def)
  moreover have "parseRow tableTree ([0, 1, 0, 0, 2], tableRows ! 2) = None"
    using parameter_rows [OF tableRow_cells(3) [symmetric] block] by simp
  moreover have "parseParameters testCheerio ?section
     = [\<lparr>name = ''n'', Parameter.description = ''d'', required = False\<rparr>,
        \<lparr>name = ''n'', Parameter.description = ''d'', required = True\<rparr>,
        \<lparr>name = ''start'', Parameter.description = ''Where to start'', required = False\<rparr>]"
    using parameter_rows [OF tableRow_cells(1) [symmetric] block]
    by (simp add: tableTree_parameters)
  ultimately show ?thesis by simp
qed


section \<open>Searching\<close>

lemma searchLoop_eq:
  "searchLoop cfg ch net query names w results
     = (foldl (\<lambda>w element. fst (fetchDoc cfg ch net w element)) w names,
        results @ filter (matches query) (successes (fetchEach cfg ch net w names)))"
proof (induction names arbitrary: w results)
  case Nil
  show ?case by simp
next
  case (Cons element rest)
  obtain w' r where f: "fetchDoc cfg ch net w element = (w', r)"
    by (cases "fetchDoc cfg ch net w element")
  show ?case
  proof (cases r)
    case (Inl e)
    with f Cons.IH [of w' results] show ?thesis by simp
  next
    case (Inr doc)
    with f Cons.IH [of w' "results @ [doc]"] Cons.IH [of w' results] show ?thesis by simp
  qed
qed

lemma entries_no_index:
  assumes "\<forall>(k, v) \<in> set obj. \<not> isArrayIndex k"
  shows "entries obj = obj"
proof -
  have "filter (\<lambda>(k, v). isArrayIndex k) obj = []"
    using assms by (auto simp: filter_empty_conv)
  moreover have "filter (\<lambda>(k, v). \<not> isArrayIndex k) obj = obj"
    using assms by (auto simp: filter_id_conv)
  ultimately show ?thesis by (simp add: entries_def)
qed

lemma isArrayIndex_digit: "isArrayIndex k \<Longrightarrow> isDigit (hd k)"
  by (cases k) (auto simp: isArrayIndex_def)

lemma marimo_no_index: "\<forall>(k, v) \<in> set marimoEndpoints. \<not> isArrayIndex k"
  by (auto simp: marimoEndpoints_def isDigit_def dest!: isArrayIndex_digit)

lemma marimo_keys: "keys marimoEndpoints = map fst marimoEndpoints"
  by (simp add: keys_def entries_no_index [OF marimo_no_index])

text \<open>
  Claim C2. \<open>searchDocs\<close> is a total function that returns a list of documents: there is
  no error among its results. It fetches every name of \<open>Object.keys\<close> of the endpoint
  table once and in this order, each fetch in the world the one before has left, and
  returns, in this order, the documents of the fetches that succeeded and whose
  \<open>JSON.stringify\<close> text, in lower case, contains the query in lower case. A fetch that
  fails contributes nothing and does not stop the loop. For the program's table,
  \<open>Object.keys\<close> is the order in which the table is written.
\<close>

theorem search_skips_failures:
  "searchDocs cfg ch net w query
     = (foldl (\<lambda>w element. fst (fetchDoc cfg ch net w element)) w (keys (endpoints cfg)),
        filter (matches query)
          (successes (fetchEach cfg ch net w (keys (endpoints cfg)))))
   \<and> length (fetchEach cfg ch net w (keys (endpoints cfg))) = length (keys (endpoints cfg))
   \<and> matches query doc
       = sublist (toLowerCase query) (toLowerCase (stringify (docJson doc)))
   \<and> keys (endpoints marimoDocs) = map fst marimoEndpoints"
proof (intro conjI)
  show "searchDocs cfg ch net w query
     = (foldl (\<lambda>w element. fst (fetchDoc cfg ch net w element)) w (keys (endpoints cfg)),
        filter (matches query)
          (successes (fetchEach cfg ch net w (keys (endpoints cfg)))))"
    by (simp add: searchDocs_def searchLoop_eq)
next
  have "length (fetchEach cfg ch net w names) = length names" for names
    by (induction names arbitrary: w) (auto split: prod.split)
  then show "length (fetchEach cfg ch net w (keys (endpoints cfg)))
      = length (keys (endpoints cfg))" .
next
  show "matches query doc
       = sublist (toLowerCase query) (toLowerCase (stringify (docJson doc)))"
    by (simp add: matches_def includes_str_def)
next
  show "keys (endpoints marimoDocs) = map fst marimoEndpoints"
    by (simp add: marimoDocs_def marimo_keys)
qed

lemma testDocs_keys: "keys (endpoints testDocs) = [''empty'', ''slider'', ''plain'', ''gone'']"
  by (simp add: testDocs_def keys_def entries_def isArrayIndex_def isDigit_def)

lemma testDocs_fetch:
  "fetchDoc testDocs testCheerio testNetwork w ''empty''
     = (w\<lparr>requests := requests w @ [(''https://x/api/empty/'', requestHeaders)]\<rparr>,
        Inl (McpError InternalError ''Failed to fetch documentation for empty''))"
  "fetchDoc testDocs testCheerio testNetwork w ''gone''
     = (w\<lparr>requests := requests w @ [(''https://x/api/gone/'', requestHeaders)]\<rparr>,
        Inl (McpError InternalError ''Failed to fetch documentation for gone''))"
  "fetchDoc testDocs testCheerio testNetwork w ''slider''
     = (w\<lparr>requests := requests w @ [(''https://x/api/inputs/slider/'', requestHeaders)]\<rparr>,
        Inr (extractDoc testCheerio sliderPage))"
  "fetchDoc testDocs testCheerio testNetwork w ''plain''
     = (w\<lparr>requests := requests w @ [(''https://x/api/plain/'', requestHeaders)]\<rparr>,
        Inr (extractDoc testCheerio plainPage))"
  by (simp_all add: fetchDoc_def getProperty_def testDocs_def tryFetch_def testNetwork_def
        extractResponse_def
        pages_differ)

lemma testCheerio_extracts:
  "extractDoc testCheerio sliderPage
     = \<lparr>title = ''Slider'', description = ''A slider.'', parameters = [], examples = []\<rparr>"
  "extractDoc testCheerio plainPage
     = \<lparr>title = [], description = [], parameters = [], examples = []\<rparr>"
proof -
  show "extractDoc testCheerio sliderPage
     = \<lparr>title = ''Slider'', description = ''A slider.'', parameters = [], examples = []\<rparr>"
    by (rule slider_extract) (simp add: testCheerio_def)
  have "load testCheerio plainPage = plainTree"
    by (simp add: testCheerio_def pages_differ)
  then show "extractDoc testCheerio plainPage
     = \<lparr>title = [], description = [], parameters = [], examples = []\<rparr>"
    by (intro extractDoc_no_content select_empty) (simp add: plainTree_nodes)
qed

lemma testDocs_fetches:
  "fetchEach testDocs testCheerio testNetwork w [''empty'', ''slider'', ''plain'', ''gone'']
   = [Inl (McpError InternalError ''Failed to fetch documentation for empty''),
      Inr \<lparr>title = ''Slider'', description = ''A slider.'', parameters = [], examples = []\<rparr>,
      Inr \<lparr>title = [], description = [], parameters = [], examples = []\<rparr>,
      Inl (McpError InternalError ''Failed to fetch documentation for gone'')]"
  by (simp add: testDocs_fetch testCheerio_extracts)

lemma slider_matches:
  "matches ''SLIDER''
     \<lparr>title = ''Slider'', description = ''A slider.'', parameters = [], examples = []\<rparr>"
  "\<not> matches ''SLIDER'' \<lparr>title = [], description = [], parameters = [], examples = []\<rparr>"
  by (simp_all add: matches_def includes_str_def docJson_def quote_def escapeChar_def
        toLowerCase_def lowerChar_def sublist_code char_of_def bit_Suc_0_iff)

theorem search_skips_failures_witness:
  "snd (searchDocs testDocs testCheerio testNetwork initialWorld ''SLIDER'')
     = [\<lparr>title = ''Slider'', description = ''A slider.'', parameters = [], examples = []\<rparr>]
   \<and> map fst (requests (fst (searchDocs testDocs testCheerio testNetwork initialWorld ''SLIDER'')))
     = [''https://x/api/empty/'', ''https://x/api/inputs/slider/'', ''https://x/api/plain/'',
        ''https://x/api/gone/'']"
  using search_skips_failures
    [of testDocs testCheerio testNetwork initialWorld "''SLIDER''", THEN conjunct1]
  by (simp add: testDocs_keys testDocs_fetches testDocs_fetch testCheerio_extracts
        slider_matches initialWorld_def)


section \<open>The dispatcher validates before it fetches\<close>

text \<open>
  Claim C8, as amended. A request with no arguments object is answered with
  \<open>InvalidParams\<close>; a request for \<open>get_element_api\<close> whose arguments object has no
  \<open>element\<close> is answered with \<open>InvalidParams\<close> and the message that names the field; a
  request that has an arguments object and names a tool other than the two known ones is
  answered with \<open>MethodNotFound\<close>. In each case the world is returned as it was: no GET
  request has been issued.
\<close>

theorem dispatcher_validation:
  "(req_arguments r = None \<longrightarrow>
      handler cfg ch net w r = (w, Inl (McpError InvalidParams ''Missing arguments'')))
   \<and> (req_name r = ''get_element_api'' \<and> req_arguments r = Some args
        \<and> args ''element'' = None \<longrightarrow>
      handler cfg ch net w r = (w, Inl (McpError InvalidParams ''Missing element parameter'')))
   \<and> (req_name r \<noteq> ''get_element_api'' \<and> req_name r \<noteq> ''search_api''
        \<and> req_arguments r = Some args \<longrightarrow>
      handler cfg ch net w r
        = (w, Inl (McpError MethodNotFound (''Unknown tool: '' @ req_name r))))"
  by (simp add: handler_def)

theorem dispatcher_validation_witness:
  "handler marimoDocs testCheerio testNetwork initialWorld
     \<lparr>req_name = ''get_element_api'', req_arguments = None\<rparr>
     = (initialWorld, Inl (McpError InvalidParams ''Missing arguments''))
   \<and> handler marimoDocs testCheerio testNetwork initialWorld
     \<lparr>req_name = ''get_element_api'', req_arguments = Some Map.empty\<rparr>
     = (initialWorld, Inl (McpError InvalidParams ''Missing element parameter''))
   \<and> handler marimoDocs testCheerio testNetwork initialWorld
     \<lparr>req_name = ''unknown_tool'', req_arguments = Some Map.empty\<rparr>
     = (initialWorld, Inl (McpError MethodNotFound ''Unknown tool: unknown_tool''))"
  using dispatcher_validation
      [of "\<lparr>req_name = ''get_element_api'', req_arguments = None\<rparr>"
          marimoDocs testCheerio testNetwork initialWorld Map.empty]
    dispatcher_validation
      [of "\<lparr>req_name = ''get_element_api'', req_arguments = Some Map.empty\<rparr>"
          marimoDocs testCheerio testNetwork initialWorld Map.empty]
    dispatcher_validation
      [of "\<lparr>req_name = ''unknown_tool'', req_arguments = Some Map.empty\<rparr>"
          marimoDocs testCheerio testNetwork initialWorld Map.empty]
  by simp

text \<open>
  Claim C8 as it is written, with \<open>MethodNotFound\<close> for every request that names an
  unknown tool, fails: the test for the arguments object comes before the \<open>switch\<close>
  on the name of the tool, so a request that names an unknown tool and has no arguments
  object is answered with \<open>InvalidParams\<close>.
\<close>

theorem unknown_tool_without_arguments:
  "code (snd (handler marimoDocs testCheerio testNetwork initialWorld
                \<lparr>req_name = ''unknown_tool'', req_arguments = None\<rparr>)) = Some InvalidParams
   \<and> code (snd (handler marimoDocs testCheerio testNetwork initialWorld
                \<lparr>req_name = ''unknown_tool'', req_arguments = None\<rparr>)) \<noteq> Some MethodNotFound"
  by (simp add: handler_def code_def)

text \<open>
  Claim C10. The presence of an argument is tested by its truthiness. A request for
  \<open>get_element_api\<close> whose \<open>element\<close> is the empty string, and a request for
  \<open>search_api\<close> whose \<open>query\<close> is the empty string, are answered with
  \<open>InvalidParams\<close> and the message of the missing parameter, exactly as if the field
  were absent. The answer is the same for every endpoint table, and the world is returned
  as it was: nothing is looked up and no GET request is issued. The handler of
  \<open>src/index.ts\<close> has the same text.
\<close>

theorem empty_string_argument_rejected:
  "handler cfg ch net w
     \<lparr>req_name = ''get_element_api'', req_arguments = Some (args(''element'' \<mapsto> ''''))\<rparr>
     = (w, Inl (McpError InvalidParams ''Missing element parameter''))
   \<and> handler cfg ch net w
       \<lparr>req_name = ''search_api'', req_arguments = Some (args(''query'' \<mapsto> ''''))\<rparr>
     = (w, Inl (McpError InvalidParams ''Missing query parameter''))
   \<and> handler cfg ch net w
       \<lparr>req_name = ''get_element_api'', req_arguments = Some (args(''element'' \<mapsto> ''''))\<rparr>
     = handler cfg ch net w
       \<lparr>req_name = ''get_element_api'', req_arguments = Some (args(''element'' := None))\<rparr>
   \<and> handler cfg ch net w
       \<lparr>req_name = ''search_api'', req_arguments = Some (args(''query'' \<mapsto> ''''))\<rparr>
     = handler cfg ch net w
       \<lparr>req_name = ''search_api'', req_arguments = Some (args(''query'' := None))\<rparr>"
  by (simp add: handler_def)

theorem empty_string_argument_rejected_witness:
  "handler marimoDocs testCheerio testNetwork initialWorld
     \<lparr>req_name = ''get_element_api'', req_arguments = Some [''element'' \<mapsto> '''']\<rparr>
     = (initialWorld, Inl (McpError InvalidParams ''Missing element parameter''))"
  using empty_string_argument_rejected
    [of marimoDocs testCheerio testNetwork initialWorld Map.empty]
  by simp


section \<open>The cache\<close>

lemma tryFetch_fields:
  "cache (fst (tryFetch ch net w url)) = cache w"
  "lastFetch (fst (tryFetch ch net w url)) = lastFetch w"
  by (simp_all add: tryFetch_def Let_def split: response.split)

lemma fetchDoc_fields:
  "cache (fst (fetchDoc cfg ch net w element)) = cache w"
  "lastFetch (fst (fetchDoc cfg ch net w element)) = lastFetch w"
proof -
  obtain w' r where t: "tryFetch ch net w
      (replaceDupSlashes (baseUrl cfg @ toString element (getProperty (endpoints cfg) element)))
      = (w', r)"
    by (cases "tryFetch ch net w
      (replaceDupSlashes (baseUrl cfg @ toString element (getProperty (endpoints cfg) element)))")
  then have "cache w' = cache w" "lastFetch w' = lastFetch w"
    using tryFetch_fields [of ch net w
      "replaceDupSlashes (baseUrl cfg @ toString element (getProperty (endpoints cfg) element))"]
    by simp_all
  then show "cache (fst (fetchDoc cfg ch net w element)) = cache w"
    and "lastFetch (fst (fetchDoc cfg ch net w element)) = lastFetch w"
    using t by (auto simp: fetchDoc_def Let_def split: sum.splits)
qed

lemma foldl_fetch_cache:
  "cache (foldl (\<lambda>w element. fst (fetchDoc cfg ch net w element)) w names) = cache w"
  by (induction names arbitrary: w) (simp_all add: fetchDoc_fields)

lemma searchDocs_cache: "cache (fst (searchDocs cfg ch net w query)) = cache w"
  by (simp add: searchDocs_def searchLoop_eq foldl_fetch_cache)

lemma handler_cache: "cache (fst (handler cfg ch net w r)) = cache w"
proof -
  have f: "cache (fst (case fetchDoc cfg ch net w e of
                        (w', Inl err) \<Rightarrow> (w', Inl err)
                      | (w', Inr doc) \<Rightarrow> (w', Inr (g doc)))) = cache w" for e g
    using fetchDoc_fields(1) [of cfg ch net w e]
    by (cases "fetchDoc cfg ch net w e") (auto split: sum.splits)
  have s: "cache (fst (case searchDocs cfg ch net w q of (w', results) \<Rightarrow> (w', h results)))
             = cache w" for q h
    using searchDocs_cache [of cfg ch net w q]
    by (cases "searchDocs cfg ch net w q") auto
  show ?thesis
    unfolding handler_def
    by (simp add: f s split: option.split)
qed

lemma serve_cache: "cache (serve cfg ch net w rs) = cache w"
  by (induction rs arbitrary: w) (simp_all add: handler_cache)

lemma tryFetch_ignores_cache:
  "tryFetch ch net (w\<lparr>cache := c, lastFetch := t\<rparr>) url
     = (case tryFetch ch net w url of (w', r) \<Rightarrow> (w'\<lparr>cache := c, lastFetch := t\<rparr>, r))"
  by (simp add: tryFetch_def Let_def split: response.split)

lemma fetchDoc_ignores_cache:
  "fetchDoc cfg ch net (w\<lparr>cache := c, lastFetch := t\<rparr>) element
     = (case fetchDoc cfg ch net w element of
          (w', r) \<Rightarrow> (w'\<lparr>cache := c, lastFetch := t\<rparr>, r))"
  by (simp add: fetchDoc_def Let_def tryFetch_ignores_cache split: sum.split prod.split)

lemma fetchDoc_success_requests:
  assumes "snd (fetchDoc cfg ch net w element) = Inr doc"
  shows "requests (fst (fetchDoc cfg ch net w element))
     = requests w
       @ [(replaceDupSlashes
             (baseUrl cfg @ toString element (getProperty (endpoints cfg) element)),
           requestHeaders)]"
proof -
  let ?url = "replaceDupSlashes
      (baseUrl cfg @ toString element (getProperty (endpoints cfg) element))"
  have t: "truthy (getProperty (endpoints cfg) element)"
    using assms by (auto simp: fetchDoc_def Let_def split: if_splits sum.splits)
  then have "fst (fetchDoc cfg ch net w element) = fst (tryFetch ch net w ?url)"
    by (cases "tryFetch ch net w ?url") (auto simp: fetchDoc_def Let_def split: sum.splits)
  then show ?thesis
    by (simp add: tryFetch_requests)
qed


lemma sliderDocs_fetch:
  "fetchDoc sliderDocs testCheerio testNetwork w ''slider''
     = (w\<lparr>requests := requests w @ [(''https://x/api/inputs/slider/'', requestHeaders)]\<rparr>,
        Inr (extractDoc testCheerio sliderPage))"
  by (simp add: fetchDoc_def getProperty_def sliderDocs_def tryFetch_def testNetwork_def
        extractResponse_def
        pages_differ)

text \<open>
  Claim C9. No operation writes the cache: a fetch, a search and a call of the handler
  leave it as it was, so it is still empty after any sequence of requests served from the
  initial world. No operation reads it: with another cache and another time of the last
  fetch, \<open>fetchDoc\<close> gives the same result and makes the same requests. And every fetch
  that succeeds has issued its GET request, whatever the world was before, so also when
  the same name has been fetched before.
\<close>

theorem cache_never_used:
  "cache (serve cfg ch net initialWorld rs) = Map.empty
   \<and> cache (fst (fetchDoc cfg ch net w element)) = cache w
   \<and> cache (fst (searchDocs cfg ch net w query)) = cache w
   \<and> fetchDoc cfg ch net (w\<lparr>cache := c, lastFetch := t\<rparr>) element
       = (case fetchDoc cfg ch net w element of
            (w', r) \<Rightarrow> (w'\<lparr>cache := c, lastFetch := t\<rparr>, r))
   \<and> (snd (fetchDoc cfg ch net w element) = Inr doc \<longrightarrow>
        requests (fst (fetchDoc cfg ch net w element))
          = requests w
            @ [(replaceDupSlashes
                  (baseUrl cfg @ toString element (getProperty (endpoints cfg) element)),
                requestHeaders)])"
proof (intro conjI impI)
  show "cache (serve cfg ch net initialWorld rs) = Map.empty"
    by (simp add: serve_cache initialWorld_def)
  show "cache (fst (fetchDoc cfg ch net w element)) = cache w"
    by (rule fetchDoc_fields)
  show "cache (fst (searchDocs cfg ch net w query)) = cache w"
    by (rule searchDocs_cache)
  show "fetchDoc cfg ch net (w\<lparr>cache := c, lastFetch := t\<rparr>) element
       = (case fetchDoc cfg ch net w element of
            (w', r) \<Rightarrow> (w'\<lparr>cache := c, lastFetch := t\<rparr>, r))"
    by (rule fetchDoc_ignores_cache)
next
  assume "snd (fetchDoc cfg ch net w element) = Inr doc"
  then show "requests (fst (fetchDoc cfg ch net w element))
          = requests w
            @ [(replaceDupSlashes
                  (baseUrl cfg @ toString element (getProperty (endpoints cfg) element)),
                requestHeaders)]"
    by (rule fetchDoc_success_requests)
qed

theorem cache_never_used_witness:
  "cache (serve sliderDocs testCheerio testNetwork initialWorld
            [\<lparr>req_name = ''get_element_api'',
              req_arguments = Some [''element'' \<mapsto> ''slider'']\<rparr>,
             \<lparr>req_name = ''get_element_api'',
              req_arguments = Some [''element'' \<mapsto> ''slider'']\<rparr>]) = Map.empty
   \<and> map fst (requests (serve sliderDocs testCheerio testNetwork initialWorld
            [\<lparr>req_name = ''get_element_api'',
              req_arguments = Some [''element'' \<mapsto> ''slider'']\<rparr>,
             \<lparr>req_name = ''get_element_api'',
              req_arguments = Some [''element'' \<mapsto> ''slider'']\<rparr>]))
     = [''https://x/api/inputs/slider/'', ''https://x/api/inputs/slider/'']
   \<and> requests (fst (fetchDoc sliderDocs testCheerio testNetwork
         \<lparr>cache = Map.empty, lastFetch = None,
          requests = [(''https://x/api/inputs/slider/'', requestHeaders)]\<rparr> ''slider''))
     = [(''https://x/api/inputs/slider/'', requestHeaders),
        (''https://x/api/inputs/slider/'', requestHeaders)]"
proof -
  let ?r = "\<lparr>req_name = ''get_element_api'',
              req_arguments = Some [''element'' \<mapsto> ''slider'']\<rparr>"
  let ?w = "\<lparr>cache = Map.empty, lastFetch = None,
          requests = [(''https://x/api/inputs/slider/'', requestHeaders)]\<rparr>"
  note c = cache_never_used [where cfg = sliderDocs and ch = testCheerio
      and net = testNetwork and rs = "[?r, ?r]" and w = ?w and element = "''slider''"
      and doc = "extractDoc testCheerio sliderPage"]
  have "cache (serve sliderDocs testCheerio testNetwork initialWorld [?r, ?r]) = Map.empty"
    using c by simp
  moreover have "map fst (requests (serve sliderDocs testCheerio testNetwork initialWorld [?r, ?r]))
     = [''https://x/api/inputs/slider/'', ''https://x/api/inputs/slider/'']"
    by (simp add: handler_def sliderDocs_fetch initialWorld_def)
  moreover have "requests (fst (fetchDoc sliderDocs testCheerio testNetwork ?w ''slider''))
     = [(''https://x/api/inputs/slider/'', requestHeaders),
        (''https://x/api/inputs/slider/'', requestHeaders)]"
    using c by (simp add: sliderDocs_fetch)
  ultimately show ?thesis by simp
qed


section \<open>Names that are not in the endpoint table\<close>

text \<open>
  The \<open>forEach\<close> of \<open>fetchDoc\<close> builds the groups that the specification describes,
  provided that no section is a member of \<open>Object.prototype\<close>: in that case
  \<open>push\<close> is called on an object that has none, and a \<open>TypeError\<close> leaves
  \<open>fetchDoc\<close>.
\<close>

lemma set_firstOccurrences [simp]: "set (firstOccurrences xs) = set xs"
  by (induction xs) auto

lemma distinct_firstOccurrences [simp]: "distinct (firstOccurrences xs)"
  by (induction xs) auto

lemma firstOccurrences_distinct: "distinct xs \<Longrightarrow> firstOccurrences xs = xs"
  by (induction xs) (auto simp: filter_id_conv)

lemma firstOccurrences_append:
  "firstOccurrences (xs @ ys)
     = firstOccurrences xs @ filter (\<lambda>y. y \<notin> set xs) (firstOccurrences ys)"
  by (induction xs) (auto simp: conj_commute cong: filter_cong)

lemma firstOccurrences_seen:
  assumes "s \<in> set xs"
  shows "firstOccurrences (xs @ s # ys) = firstOccurrences (xs @ ys)"
  using assms by (auto simp: firstOccurrences_append intro!: filter_cong)

lemma groupBySection_step:
  assumes "s = sectionOf p" and "s \<notin> set objectPrototypeKeys"
    and "distinct (map fst acc)"
  shows "groupBySection ((k, p) # rest) acc = groupBySection rest (addElement acc s k)"
proof (cases "map_of acc s")
  case None
  then have notin: "s \<notin> fst ` set acc"
    by (simp add: map_of_eq_None_iff)
  have keep: "map (\<lambda>(k', v'). if k' = s then (k', [k]) else (k', v')) acc = acc"
    using notin by (induction acc) auto
  have obj: "setProperty acc s [] = acc @ [(s, [])]"
    using None by (simp add: setProperty_def)
  have look: "map_of (acc @ [(s, [])]) s = Some []"
    using None by (simp add: map_add_def)
  have push: "setProperty (acc @ [(s, [])]) s ([] @ [k]) = acc @ [(s, [k])]"
    using look keep by (simp add: setProperty_def)
  have "getProperty acc s = Undefined"
    using None assms(2) by (simp add: getProperty_def)
  moreover have "getProperty (acc @ [(s, [])]) s = Own []"
    using look by (simp add: getProperty_def)
  ultimately have "groupBySection ((k, p) # rest) acc
      = groupBySection rest (acc @ [(s, [k])])"
    using assms(1) obj push by (simp add: Let_def)
  then show ?thesis
    using None by (simp add: addElement_def)
next
  case (Some a)
  have "map (\<lambda>(k', v'). if k' = s then (k', a @ [k]) else (k', v')) acc
      = map (\<lambda>(s', xs). if s' = s then (s', xs @ [k]) else (s', xs)) acc"
  proof (rule map_cong [OF refl])
    fix x assume x: "x \<in> set acc"
    obtain s' xs where sx: "x = (s', xs)" by (cases x)
    have "xs = a" if "s' = s"
      using that x sx Some assms(3) by (metis map_of_is_SomeI option.inject)
    then show "(case x of (k', v') \<Rightarrow> if k' = s then (k', a @ [k]) else (k', v'))
        = (case x of (s', xs) \<Rightarrow> if s' = s then (s', xs @ [k]) else (s', xs))"
      using sx by auto
  qed
  then have "setProperty acc s (a @ [k]) = addElement acc s k"
    using Some by (simp only: setProperty_def addElement_def) simp
  moreover have "groupBySection ((k, p) # rest) acc
      = groupBySection rest (setProperty acc s (a @ [k]))"
    using Some assms(1,2) by (simp add: getProperty_def Let_def)
  ultimately show ?thesis by simp
qed

lemma addElement_keys:
  "map fst (addElement acc s k)
     = (if map_of acc s = None then map fst acc @ [s] else map fst acc)"
  by (auto simp: addElement_def intro!: map_idI split: prod.split)

lemma addElement_distinct:
  "distinct (map fst acc) \<Longrightarrow> distinct (map fst (addElement acc s k))"
  by (auto simp: addElement_keys map_of_eq_None_iff)

lemma addElement_lookup:
  assumes "distinct (map fst acc)"
  shows "(case map_of (addElement acc s k) t of None \<Rightarrow> [] | Some xs \<Rightarrow> xs)
     = (case map_of acc t of None \<Rightarrow> [] | Some xs \<Rightarrow> xs) @ (if t = s then [k] else [])"
proof (cases "map_of acc s")
  case None
  then show ?thesis
    by (auto simp: addElement_def map_add_def split: option.split)
next
  case (Some a)
  have "map_of (map (\<lambda>(s', xs). if s' = s then (s', xs @ [k]) else (s', xs)) acc) t
      = map_option (\<lambda>xs. if t = s then xs @ [k] else xs) (map_of acc t)"
    by (induction acc) auto
  then show ?thesis
    using Some by (auto simp: addElement_def split: option.split)
qed


lemma groupedFrom_Nil:
  assumes "distinct (map fst acc)"
  shows "groupedFrom acc [] = acc"
proof -
  have "map (\<lambda>s. (s, case map_of acc s of None \<Rightarrow> [] | Some xs \<Rightarrow> xs)) (map fst acc) = acc"
    unfolding map_map
  proof (rule map_idI)
    fix x assume "x \<in> set acc"
    then have "map_of acc (fst x) = Some (snd x)"
      using assms by (metis map_of_is_SomeI prod.collapse)
    then show "((\<lambda>s. (s, case map_of acc s of None \<Rightarrow> [] | Some xs \<Rightarrow> xs)) \<circ> fst) x = x"
      by (cases x) simp
  qed
  then show ?thesis
    using assms by (simp add: groupedFrom_def firstOccurrences_distinct)
qed

lemma groupedFrom_Cons:
  assumes "distinct (map fst acc)"
  shows "groupedFrom (addElement acc (sectionOf p) k) es = groupedFrom acc ((k, p) # es)"
proof -
  let ?s = "sectionOf p"
  let ?R = "map (\<lambda>(element, path). sectionOf path) es"
  have keys: "firstOccurrences (map fst (addElement acc ?s k) @ ?R)
      = firstOccurrences (map fst acc @ ?s # ?R)"
  proof (cases "map_of acc ?s")
    case None
    then show ?thesis by (simp add: addElement_keys)
  next
    case (Some a)
    then have "?s \<in> set (map fst acc)"
      by (metis map_of_eq_None_iff option.distinct(1) set_map)
    then show ?thesis
      using Some by (simp add: addElement_keys firstOccurrences_seen)
  qed
  have vals: "(case map_of (addElement acc ?s k) t of None \<Rightarrow> [] | Some xs \<Rightarrow> xs)
        @ map fst (filter (\<lambda>(element, path). sectionOf path = t) es)
      = (case map_of acc t of None \<Rightarrow> [] | Some xs \<Rightarrow> xs)
        @ map fst (filter (\<lambda>(element, path). sectionOf path = t) ((k, p) # es))" for t
    by (simp add: addElement_lookup [OF assms])
  show ?thesis
    unfolding groupedFrom_def keys
    by (simp only: vals list.map prod.case)
qed

lemma groupBySection_groupedFrom:
  assumes "distinct (map fst acc)"
    and "\<forall>(k, p) \<in> set es. sectionOf p \<notin> set objectPrototypeKeys"
  shows "groupBySection es acc = Inr (groupedFrom acc es)"
  using assms
proof (induction es arbitrary: acc)
  case Nil
  then show ?case by (simp add: groupedFrom_Nil)
next
  case (Cons e es)
  obtain k p where e: "e = (k, p)" by (cases e)
  have "groupBySection (e # es) acc = groupBySection es (addElement acc (sectionOf p) k)"
    using Cons.prems e by (simp add: groupBySection_step del: groupBySection.simps)
  also have "\<dots> = Inr (groupedFrom (addElement acc (sectionOf p) k) es)"
    using Cons.prems by (intro Cons.IH addElement_distinct) auto
  finally show ?case
    using Cons.prems(1) e by (simp add: groupedFrom_Cons)
qed

lemma groupBySection_grouped:
  assumes "\<forall>(k, p) \<in> set es. sectionOf p \<notin> set objectPrototypeKeys"
  shows "groupBySection es [] = Inr (groupedBySection es)"
  using groupBySection_groupedFrom [of "[]" es] assms
  by (simp add: groupedFrom_def groupedBySection_def)

lemma mset_groups:
  assumes "distinct ss"
  shows "mset (concat (map (\<lambda>s. filter (\<lambda>x. f x = s) xs) ss))
     = mset (filter (\<lambda>x. f x \<in> set ss) xs)"
  using assms
proof (induction ss)
  case Nil
  show ?case by simp
next
  case (Cons s ss)
  have "filter_mset (\<lambda>x. f x = s) (mset xs) + filter_mset (\<lambda>x. f x \<in> set ss) (mset xs)
      = filter_mset (\<lambda>x. f x = s \<or> f x \<in> set ss) (mset xs)"
    using Cons.prems by (intro multiset_eqI) auto
  then show ?case
    using Cons by simp
qed

lemma grouped_names:
  "mset (concat (map snd (groupedBySection es))) = mset (map fst es)"
proof -
  let ?f = "\<lambda>(element, path). sectionOf path"
  have "concat (map snd (groupedBySection es))
      = map fst (concat (map (\<lambda>s. filter (\<lambda>x. ?f x = s) es) (firstOccurrences (map ?f es))))"
    by (simp add: groupedBySection_def map_concat comp_def split_def)
  moreover have "mset (concat (map (\<lambda>s. filter (\<lambda>x. ?f x = s) es) (firstOccurrences (map ?f es))))
      = mset es"
    by (subst mset_groups) (auto simp: filter_id_conv intro!: arg_cong [where f = mset])
  ultimately show ?thesis
    by (metis mset_map)
qed


lemma unknown_element:
  assumes "\<not> truthy (getProperty (endpoints cfg) element)"
    and "\<forall>(k, p) \<in> set (entries (endpoints cfg)). sectionOf p \<notin> set objectPrototypeKeys"
  shows "fetchDoc cfg ch net w element
     = (w, Inl (McpError InvalidParams
                  (unknownElementMessage element
                     (groupedBySection (entries (endpoints cfg))))))"
  using assms by (simp add: fetchDoc_def groupBySection_grouped)

lemma marimo_sections:
  "\<forall>(k, p) \<in> set marimoEndpoints. sectionOf p \<notin> set objectPrototypeKeys"
  by code_simp

lemma marimo_grouped:
  "groupedBySection marimoEndpoints =
     [(''inputs'', [''array'', ''anywidget'', ''batch'', ''button'', ''chat'',
       ''checkbox'', ''code_editor'', ''data_explorer'', ''dataframe'', ''dates'',
       ''dictionary'', ''dropdown'', ''file'', ''file_browser'', ''form'', ''microphone'',
       ''multiselect'', ''nav_menu'', ''number'', ''radio'', ''range_slider'', ''refresh'',
       ''run_button'', ''slider'', ''switch'', ''table'', ''tabs'', ''text'',
       ''text_area'']),
      (''layouts'', [''accordion'', ''callout'', ''carousel'', ''justify'', ''lazy'',
       ''plain'', ''routes'', ''sidebar'', ''stacks'', ''tree'']),
      (''media'', [''audio'', ''download'', ''image'', ''pdf'', ''plain_text'', ''video'']),
      (''markdown'', [''markdown'']),
      (''control_flow'', [''control_flow'']),
      (''plotting'', [''plotting'']),
      (''status'', [''status'']),
      (''outputs'', [''outputs'']),
      (''diagrams'', [''diagrams'']),
      (''html'', [''html'']),
      (''query_params'', [''query_params'']),
      (''cli_args'', [''cli_args'']),
      (''caching'', [''caching'']),
      (''state'', [''state'']),
      (''app'', [''app'']),
      (''cell'', [''cell'']),
      (''miscellaneous'', [''miscellaneous''])]"
  by code_simp


lemma marimo_available:
  "join_str [CHR 0x0A]
     (map (\<lambda>(section, elements). section @ '': '' @ join_str '', '' elements)
        (entries (groupedBySection marimoEndpoints)))
   = ''inputs: array, anywidget, batch, button, chat, checkbox, code_editor, ''
       @ ''data_explorer, dataframe, dates, dictionary, dropdown, file, ''
       @ ''file_browser, form, microphone, multiselect, nav_menu, number, radio, ''
       @ ''range_slider, refresh, run_button, slider, switch, table, tabs, text, ''
       @ ''text_area'' @ [CHR 0x0A]
       @ ''layouts: accordion, callout, carousel, justify, lazy, plain, routes, ''
       @ ''sidebar, stacks, tree'' @ [CHR 0x0A]
       @ ''media: audio, download, image, pdf, plain_text, video'' @ [CHR 0x0A]
       @ ''markdown: markdown'' @ [CHR 0x0A]
       @ ''control_flow: control_flow'' @ [CHR 0x0A]
       @ ''plotting: plotting'' @ [CHR 0x0A]
       @ ''status: status'' @ [CHR 0x0A]
       @ ''outputs: outputs'' @ [CHR 0x0A]
       @ ''diagrams: diagrams'' @ [CHR 0x0A]
       @ ''html: html'' @ [CHR 0x0A]
       @ ''query_params: query_params'' @ [CHR 0x0A]
       @ ''cli_args: cli_args'' @ [CHR 0x0A]
       @ ''caching: caching'' @ [CHR 0x0A]
       @ ''state: state'' @ [CHR 0x0A]
       @ ''app: app'' @ [CHR 0x0A]
       @ ''cell: cell'' @ [CHR 0x0A]
       @ ''miscellaneous: miscellaneous''"
  by code_simp

lemma marimo_undefined:
  assumes "map_of marimoEndpoints element = None"
    and "element \<notin> set objectPrototypeKeys"
  shows "fetchDoc marimoDocs ch net w element
     = (w, Inl (McpError InvalidParams
          (''Unknown element: '' @ element @ [CHR 0x0A, CHR 0x0A]
           @ ''Available elements by section:'' @ [CHR 0x0A]
           @ join_str [CHR 0x0A]
               (map (\<lambda>(section, elements). section @ '': '' @ join_str '', '' elements)
                  (entries (groupedBySection marimoEndpoints))))))"
proof -
  have e: "entries (endpoints marimoDocs) = marimoEndpoints"
    by (simp add: marimoDocs_def entries_no_index [OF marimo_no_index])
  have "\<not> truthy (getProperty (endpoints marimoDocs) element)"
    using assms by (simp add: getProperty_def marimoDocs_def)
  then show ?thesis
    using unknown_element [of marimoDocs element ch net w] marimo_sections
    by (simp add: e unknownElementMessage_def)
qed

lemma index_keys:
  "join_str '', '' (keys (endpoints indexDocs))
     = ''slider, button, checkbox, dropdown, text, number, array, multiselect, radio, switch, date, time, file''"
  by code_simp

lemma index_undefined:
  assumes "map_of indexEndpoints element = None"
    and "element \<notin> set objectPrototypeKeys"
  shows "fetchDoc_index indexDocs ch net w element
     = (w, Inl (McpError InvalidParams
          (''Unknown element: '' @ element @ ''. Available elements: ''
           @ join_str '', '' (keys (endpoints indexDocs)))))"
  using assms by (simp add: fetchDoc_index_def getProperty_def indexDocs_def)

lemma constructor_not_own:
  "map_of marimoEndpoints ''constructor'' = None"
  "map_of indexEndpoints ''constructor'' = None"
  by (simp_all add: marimoEndpoints_def indexEndpoints_def)

lemma tryFetch_code: "code (snd (tryFetch ch net w url)) \<noteq> Some InvalidParams"
  by (simp add: tryFetch_def Let_def code_def extractResponse_def
      split: response.split jsvalue.split option.split)

lemma constructor_inherited:
  "getProperty marimoEndpoints ''constructor'' = Inherited"
  "getProperty indexEndpoints ''constructor'' = Inherited"
  by (simp_all add: getProperty_def constructor_not_own objectPrototypeKeys_def)

text \<open>
  Claim C1 fails on the names that a plain object inherits from \<open>Object.prototype\<close>.
  The name \<open>constructor\<close> is not in the endpoint table, yet \<open>this.endpoints[element]\<close>
  is the function \<open>Object\<close>, which is truthy. So \<open>fetchDoc\<close> does not answer with the
  error of an unknown element: it issues a GET request for the base URL followed by the
  text of that function, and ends with the document of the response or with an
  \<open>InternalError\<close>. Both copies of the program do so.
\<close>

theorem inherited_name_is_fetched:
  "map_of marimoEndpoints ''constructor'' = None
   \<and> requests (fst (fetchDoc marimoDocs ch net w ''constructor''))
       = requests w
         @ [(''https://docs.marimo.io/apifunction Object() { [native code] }'',
             requestHeaders)]
   \<and> code (snd (fetchDoc marimoDocs ch net w ''constructor'')) \<noteq> Some InvalidParams
   \<and> map_of indexEndpoints ''constructor'' = None
   \<and> requests (fst (fetchDoc_index indexDocs ch net w ''constructor''))
       = requests w
         @ [(''https://docs.marimo.io/api/inputsfunction Object() { [native code] }'',
             requestHeaders)]
   \<and> code (snd (fetchDoc_index indexDocs ch net w ''constructor'')) \<noteq> Some InvalidParams"
proof -
  let ?u = "''https://docs.marimo.io/apifunction Object() { [native code] }''"
  let ?v = "''https://docs.marimo.io/api/inputsfunction Object() { [native code] }''"
  have u: "replaceDupSlashes (baseUrl marimoDocs @ toString ''constructor'' Inherited) = ?u"
    by (simp add: marimoDocs_def protoToString_def)
  have v: "baseUrl indexDocs @ toString ''constructor'' Inherited = ?v"
    by (simp add: indexDocs_def protoToString_def)
  obtain w1 r1 where t1: "tryFetch ch net w ?u = (w1, r1)"
    by (cases "tryFetch ch net w ?u")
  obtain w2 r2 where t2: "tryFetch ch net w ?v = (w2, r2)"
    by (cases "tryFetch ch net w ?v")
  have f1: "fetchDoc marimoDocs ch net w ''constructor''
      = (case r1 of
           Inl error \<Rightarrow>
             (w1, Inl (McpError InternalError
                         (''Failed to fetch documentation for '' @ ''constructor'')))
         | Inr doc \<Rightarrow> (w1, Inr doc))"
    using constructor_inherited(1) u t1
    by (simp add: fetchDoc_def marimoDocs_def split: sum.split)
  have f2: "fetchDoc_index indexDocs ch net w ''constructor''
      = (case r2 of
           Inl error \<Rightarrow>
             (w2, Inl (McpError InternalError
                         (''Failed to fetch documentation for '' @ ''constructor'')))
         | Inr doc \<Rightarrow> (w2, Inr doc))"
    using constructor_inherited(2) v t2
    by (simp add: fetchDoc_index_def indexDocs_def split: sum.split)
  have q1: "requests w1 = requests w @ [(?u, requestHeaders)]"
    using tryFetch_requests [of ch net w ?u] t1 by simp
  have q2: "requests w2 = requests w @ [(?v, requestHeaders)]"
    using tryFetch_requests [of ch net w ?v] t2 by simp
  show ?thesis
    using q1 q2
    by (cases r1; cases r2) (simp_all add: f1 f2 constructor_not_own code_def)
qed

theorem inherited_name_is_fetched_witness:
  "requests (fst (fetchDoc marimoDocs testCheerio testNetwork initialWorld ''constructor''))
     = [(''https://docs.marimo.io/apifunction Object() { [native code] }'', requestHeaders)]
   \<and> snd (fetchDoc marimoDocs testCheerio testNetwork initialWorld ''constructor'')
     = Inl (McpError InternalError ''Failed to fetch documentation for constructor'')"
proof -
  have "snd (fetchDoc marimoDocs testCheerio testNetwork initialWorld ''constructor'')
     = Inl (McpError InternalError ''Failed to fetch documentation for constructor'')"
    using constructor_inherited(1)
    by (simp add: fetchDoc_def marimoDocs_def protoToString_def tryFetch_def testNetwork_def)
  then show ?thesis
    using inherited_name_is_fetched [of testCheerio testNetwork initialWorld]
    by (simp add: initialWorld_def)
qed

end
